theory Spec2Isabelle
  imports Complex_Main
begin

section \<open>JavaScript values and built-ins used by the routes\<close>

text \<open>
  A JavaScript string is a sequence of UTF-16 code units; a code unit is modelled as a
  natural number (below 65536 in every string of the program). \<open>str\<close> is the string of an
  ASCII literal of the source.
\<close>

type_synonym jsstring = "nat list"

definition str :: "string \<Rightarrow> jsstring" where
  "str s = map of_char s"

text \<open>
  A JavaScript number: NaN, the infinities, or a finite value. The finite values of the
  program are IEEE doubles; the model writes them as rationals and rounds where the
  program does (\<open>roundInt\<close> for integers, the parameter \<open>number\<close> below for decimal
  literals).
\<close>

datatype jsnum = NaN | NegInf | Fin rat | PosInf

text \<open>\<^verbatim>\<open>a <= b\<close>: false as soon as one side is NaN.\<close>

fun js_le :: "jsnum \<Rightarrow> jsnum \<Rightarrow> bool" where
  "js_le NaN b = False"
| "js_le a NaN = False"
| "js_le NegInf b = True"
| "js_le a PosInf = True"
| "js_le (Fin a) (Fin b) = (a \<le> b)"
| "js_le a b = False"

definition js_ge :: "jsnum \<Rightarrow> jsnum \<Rightarrow> bool" where
  "js_ge a b = js_le b a"

text \<open>
  \<^verbatim>\<open>a - b\<close> as a comparator result. The finite case is the exact difference, which has the
  sign of the rounded difference of two doubles; \<^verbatim>\<open>sort\<close> reads nothing but the sign.
\<close>

fun js_sub :: "jsnum \<Rightarrow> jsnum \<Rightarrow> jsnum" where
  "js_sub NaN b = NaN"
| "js_sub a NaN = NaN"
| "js_sub (Fin a) (Fin b) = Fin (a - b)"
| "js_sub PosInf PosInf = NaN"
| "js_sub NegInf NegInf = NaN"
| "js_sub PosInf b = PosInf"
| "js_sub NegInf b = NegInf"
| "js_sub (Fin a) PosInf = NegInf"
| "js_sub (Fin a) NegInf = PosInf"

text \<open>
  The double nearest to an integer, ties to the even significand: integers below \<open>2^53\<close> in
  magnitude are doubles; a larger one keeps its 53 leading bits, rounded. \<open>binaryScale a\<close>
  is the number of bits dropped.
\<close>

fun binaryScale :: "nat \<Rightarrow> nat" where
  "binaryScale a = (if a < 2 ^ 53 then 0 else Suc (binaryScale (a div 2)))"

declare binaryScale.simps [simp del]

definition roundInt :: "int \<Rightarrow> int" where
  "roundInt n =
     (let a = nat \<bar>n\<bar>;
          e = binaryScale a;
          q = a div 2 ^ e;
          r = a mod 2 ^ e;
          q = (if 2 ^ e < 2 * r \<or> (2 ^ e = 2 * r \<and> odd q) then q + 1 else q)
      in sgn n * int (q * 2 ^ e))"

text \<open>The Number value of an integer: its nearest double, an infinity from \<open>2^1024\<close> on.\<close>

definition numberOfInt :: "int \<Rightarrow> jsnum" where
  "numberOfInt n =
     (let v = roundInt n
      in if 2 ^ 1024 \<le> \<bar>v\<bar> then (if n < 0 then NegInf else PosInf) else Fin (of_int v))"

text \<open>
  Library functions the model takes as parameters: \<^verbatim>\<open>String.prototype.toLowerCase\<close>, the
  locale-aware string comparison, the Number value of a decimal literal's mathematical
  value (its nearest double, an infinity on overflow), the time value of a date string
  (\<^verbatim>\<open>new Date(s)\<close> as a number, NaN for an invalid date), and the e-mail check and
  normaliser of the validation library.
\<close>

record lib =
  toLowerCase :: "jsstring \<Rightarrow> jsstring"
  localeCompare :: "jsstring \<Rightarrow> jsstring \<Rightarrow> jsnum"
  number :: "rat \<Rightarrow> jsnum"
  dateValue :: "jsstring \<Rightarrow> jsnum"
  isEmail :: "jsstring \<Rightarrow> bool"
  normalizeEmail :: "jsstring \<Rightarrow> jsstring"

text \<open>
  White space of the language (\<^verbatim>\<open>\s\<close> of a regular expression, and what \<^verbatim>\<open>parseInt\<close>
  and \<^verbatim>\<open>parseFloat\<close> skip): tab, line feed, vertical tab, form feed, carriage return,
  space, U+00A0, U+1680, U+2000 to U+200A, U+2028, U+2029, U+202F, U+205F, U+3000, U+FEFF.
\<close>

definition isWhiteSpace :: "nat \<Rightarrow> bool" where
  "isWhiteSpace c =
     (c \<in> set [9, 10, 11, 12, 13, 32, 160, 5760, 8232, 8233, 8239, 8287, 12288, 65279] \<or>
      (8192 \<le> c \<and> c \<le> 8202))"

definition isDigit :: "nat \<Rightarrow> bool" where
  "isDigit c = (48 \<le> c \<and> c \<le> 57)"

definition digitVal :: "nat \<Rightarrow> nat" where
  "digitVal c = c - 48"

definition isHexLetter :: "nat \<Rightarrow> bool" where
  "isHexLetter c = ((97 \<le> c \<and> c \<le> 102) \<or> (65 \<le> c \<and> c \<le> 70))"

definition hexLetterVal :: "nat \<Rightarrow> nat" where
  "hexLetterVal c = (if 97 \<le> c then c - 87 else c - 55)"

definition isRadixDigit :: "nat \<Rightarrow> nat \<Rightarrow> bool" where
  "isRadixDigit R c = (if R = 16 then isDigit c \<or> isHexLetter c else isDigit c)"

definition radixVal :: "nat \<Rightarrow> nat" where
  "radixVal c = (if isDigit c then digitVal c else hexLetterVal c)"

text \<open>The mathematical value of a digit string in radix \<open>R\<close>.\<close>

definition digitsValue :: "nat \<Rightarrow> jsstring \<Rightarrow> nat" where
  "digitsValue R ds = foldl (\<lambda>a c. a * R + radixVal c) 0 ds"

text \<open>\<^verbatim>\<open>String.prototype.includes\<close>: the needle occurs at some position.\<close>

fun startsWith :: "jsstring \<Rightarrow> jsstring \<Rightarrow> bool" where
  "startsWith s [] = True"
| "startsWith [] (c # t) = False"
| "startsWith (a # s) (c # t) = (a = c \<and> startsWith s t)"

fun str_includes :: "jsstring \<Rightarrow> jsstring \<Rightarrow> bool" where
  "str_includes [] t = startsWith [] t"
| "str_includes (a # s) t = (startsWith (a # s) t \<or> str_includes s t)"

text \<open>A leading sign, as \<^verbatim>\<open>parseInt\<close> and \<^verbatim>\<open>parseFloat\<close> read it: (negative, rest).\<close>

definition splitSign :: "jsstring \<Rightarrow> bool \<times> jsstring" where
  "splitSign s =
     (case s of
        [] \<Rightarrow> (False, s)
      | c # r \<Rightarrow>
          if c = of_char CHR ''-'' then (True, r)
          else if c = of_char CHR ''+'' then (False, r)
          else (False, s))"

text \<open>
  \<^verbatim>\<open>parseInt(string)\<close> without a radix: leading white space is skipped, a sign is read,
  a prefix \<^verbatim>\<open>0x\<close> selects radix 16, and the longest prefix of digits gives the
  mathematical value, of which the result is the Number value; NaN when there is no digit.
  (The language lets an engine replace decimal digits after the 20th significant one by 0;
  the model, as V8 does, rounds the exact value.)
\<close>

definition parseInt :: "jsstring \<Rightarrow> jsnum" where
  "parseInt string =
     (let (neg, S) = splitSign (dropWhile isWhiteSpace string);
          (R, S) = (case S of
                      a # b # r \<Rightarrow>
                        if a = of_char CHR ''0'' \<and> (b = of_char CHR ''x'' \<or> b = of_char CHR ''X'')
                        then (16, r) else (10, S)
                    | _ \<Rightarrow> (10, S));
          Z = takeWhile (isRadixDigit R) S
      in if Z = [] then NaN
         else numberOfInt ((if neg then - 1 else 1) * int (digitsValue R Z)))"

text \<open>The exponent part of a decimal literal (0 when there is none).\<close>

definition exponentPart :: "jsstring \<Rightarrow> int" where
  "exponentPart r =
     (case r of
        [] \<Rightarrow> 0
      | c # t \<Rightarrow>
          if c = of_char CHR ''e'' \<or> c = of_char CHR ''E'' then
            (let (eneg, t) = splitSign t; ds = takeWhile isDigit t
             in if ds = [] then 0
                else (if eneg then - int (digitsValue 10 ds) else int (digitsValue 10 ds)))
          else 0)"

text \<open>
  \<^verbatim>\<open>parseFloat(string)\<close>: the longest prefix that is a decimal literal
  (\<^verbatim>\<open>Infinity\<close>, digits with an optional fraction and exponent), NaN when there is none;
  the result is the Number value of the literal's mathematical value.
\<close>

definition parseFloat :: "lib \<Rightarrow> jsstring \<Rightarrow> jsnum" where
  "parseFloat L string =
     (let (neg, S) = splitSign (dropWhile isWhiteSpace string)
      in if take 8 S = str ''Infinity'' then (if neg then NegInf else PosInf)
         else
           (let ip = takeWhile isDigit S;
                r1 = dropWhile isDigit S;
                (fp, r2) = (case r1 of
                              [] \<Rightarrow> ([], r1)
                            | c # t \<Rightarrow>
                                if c = of_char CHR ''.''
                                then (takeWhile isDigit t, dropWhile isDigit t)
                                else ([], r1));
                ex = exponentPart r2;
                m = of_nat (digitsValue 10 (ip @ fp)) / (10 ^ length fp) :: rat;
                v = (if 0 \<le> ex then m * 10 ^ nat ex else m / 10 ^ nat (- ex))
            in if ip = [] \<and> fp = [] then NaN
               else number L (if neg then - v else v)))"

text \<open>
  \<^verbatim>\<open>Array.prototype.sort(compare)\<close>: a stable sort; a comparator result that is NaN
  counts as 0. Modelled as stable insertion sort, which is what every stable sort computes
  for a consistent comparator. For an inconsistent comparator (one that answers NaN for an
  invalid date, say) the order is the engine's own; in either case the result is a
  rearrangement of the array, which is all that is proved of it below.
\<close>

definition isPositive :: "jsnum \<Rightarrow> bool" where
  "isPositive v = (case v of Fin r \<Rightarrow> 0 < r | PosInf \<Rightarrow> True | _ \<Rightarrow> False)"

fun insert_js :: "('a \<Rightarrow> 'a \<Rightarrow> jsnum) \<Rightarrow> 'a \<Rightarrow> 'a list \<Rightarrow> 'a list" where
  "insert_js cmp x [] = [x]"
| "insert_js cmp x (y # ys) =
     (if isPositive (cmp x y) then y # insert_js cmp x ys else x # y # ys)"

definition sort_js :: "('a \<Rightarrow> 'a \<Rightarrow> jsnum) \<Rightarrow> 'a list \<Rightarrow> 'a list" where
  "sort_js cmp xs = foldr (insert_js cmp) xs []"

text \<open>\<^verbatim>\<open>[...new Set(xs)]\<close>: the distinct elements in order of first occurrence.\<close>

definition new_Set :: "'a list \<Rightarrow> 'a list" where
  "new_Set xs = foldl (\<lambda>acc x. if x \<in> set acc then acc else acc @ [x]) [] xs"

text \<open>\<^verbatim>\<open>Array.prototype.findIndex\<close>; \<open>None\<close> is -1.\<close>

fun findIndex :: "('a \<Rightarrow> bool) \<Rightarrow> 'a list \<Rightarrow> nat option" where
  "findIndex P [] = None"
| "findIndex P (x # xs) = (if P x then Some 0 else map_option Suc (findIndex P xs))"

text \<open>\<^verbatim>\<open>xs.splice(i, 1)\<close>: the array without position \<open>i\<close>.\<close>

definition splice1 :: "nat \<Rightarrow> 'a list \<Rightarrow> 'a list" where
  "splice1 i xs = take i xs @ drop (Suc i) xs"

text \<open>A request value that may be absent; \<^verbatim>\<open>if (v)\<close> holds for a non-empty string.\<close>

definition truthy :: "jsstring option \<Rightarrow> bool" where
  "truthy v = (case v of None \<Rightarrow> False | Some s \<Rightarrow> s \<noteq> [])"

text \<open>The string a validator chain sees: an absent value reads as the empty string.\<close>

definition field_str :: "jsstring option \<Rightarrow> jsstring" where
  "field_str v = (case v of None \<Rightarrow> [] | Some s \<Rightarrow> s)"

section \<open>The validators of the validation library\<close>

text \<open>
  The routes declare their rules with the validation library; its checks are modelled
  after the library's definitions (regular expressions written out as recognisers).
  \<^verbatim>\<open>trim\<close> removes the white space \<^verbatim>\<open>\s\<close> at both ends.
\<close>

definition trim :: "jsstring \<Rightarrow> jsstring" where
  "trim s = rev (dropWhile isWhiteSpace (rev (dropWhile isWhiteSpace s)))"

definition notEmpty :: "jsstring \<Rightarrow> bool" where
  "notEmpty s = (s \<noteq> [])"

text \<open>
  The length \<^verbatim>\<open>isLength\<close> measures: the number of code units, less the variation
  selectors U+FE0E and U+FE0F, less one for every surrogate pair
  (\<^verbatim>\<open>str.length - presentationSequences.length - surrogatePairs.length\<close>).
\<close>

definition isHighSurrogate :: "nat \<Rightarrow> bool" where
  "isHighSurrogate c = (55296 \<le> c \<and> c \<le> 56319)"

definition isLowSurrogate :: "nat \<Rightarrow> bool" where
  "isLowSurrogate c = (56320 \<le> c \<and> c \<le> 57343)"

fun surrogatePairs :: "jsstring \<Rightarrow> nat" where
  "surrogatePairs (a # b # r) =
     (if isHighSurrogate a \<and> isLowSurrogate b then Suc (surrogatePairs r)
      else surrogatePairs (b # r))"
| "surrogatePairs r = 0"

definition presentationSequences :: "jsstring \<Rightarrow> nat" where
  "presentationSequences s = length (filter (\<lambda>c. c = 65039 \<or> c = 65038) s)"

definition measuredLength :: "jsstring \<Rightarrow> nat" where
  "measuredLength s = length s - presentationSequences s - surrogatePairs s"

definition isLength :: "nat \<Rightarrow> nat \<Rightarrow> jsstring \<Rightarrow> bool" where
  "isLength lo hi s = (lo \<le> measuredLength s \<and> measuredLength s \<le> hi)"

definition isIn :: "jsstring list \<Rightarrow> jsstring \<Rightarrow> bool" where
  "isIn vs s = (s \<in> set vs)"

text \<open>\<^verbatim>\<open>isNumeric\<close>: the pattern \<^verbatim>\<open>^[+-]?([0-9]*[.])?[0-9]+$\<close>.\<close>

definition isNumeric :: "jsstring \<Rightarrow> bool" where
  "isNumeric s =
     (let s1 = snd (splitSign s);
          ip = takeWhile isDigit s1;
          rest = dropWhile isDigit s1
      in case rest of
           [] \<Rightarrow> ip \<noteq> []
         | c # fp \<Rightarrow> c = of_char CHR ''.'' \<and> fp \<noteq> [] \<and> list_all isDigit fp)"

text \<open>
  \<^verbatim>\<open>isFloat({ min: 0 })\<close>: the pattern
  \<^verbatim>\<open>^[-+]?[0-9]*(\.[0-9]*)?([eE][+-]?[0-9]+)?$\<close>, none of the strings
  \<^verbatim>\<open>'' . , - +\<close>, and \<^verbatim>\<open>parseFloat(str) >= 0\<close>.
\<close>

definition floatPattern :: "jsstring \<Rightarrow> bool" where
  "floatPattern s =
     (let s1 = dropWhile isDigit (snd (splitSign s));
          s2 = (case s1 of
                  [] \<Rightarrow> s1
                | c # t \<Rightarrow> if c = of_char CHR ''.'' then dropWhile isDigit t else s1)
      in case s2 of
           [] \<Rightarrow> True
         | c # t \<Rightarrow>
             (c = of_char CHR ''e'' \<or> c = of_char CHR ''E'') \<and>
             (let ds = snd (splitSign t) in ds \<noteq> [] \<and> list_all isDigit ds))"

definition isFloat_min0 :: "lib \<Rightarrow> jsstring \<Rightarrow> bool" where
  "isFloat_min0 L s =
     (if s \<in> set [[], str ''.'', str '','', str ''-'', str ''+''] then False
      else floatPattern s \<and> js_ge (parseFloat L s) (Fin 0))"

text \<open>The phone pattern of the contact route: \<^verbatim>\<open>^[+]?[\d\s\-()]{7,20}$\<close>.\<close>

definition phoneChar :: "nat \<Rightarrow> bool" where
  "phoneChar c = (isDigit c \<or> isWhiteSpace c \<or> c \<in> set (str ''-()''))"

definition matchesPhone :: "jsstring \<Rightarrow> bool" where
  "matchesPhone s =
     (let r = (case s of [] \<Rightarrow> s | c # t \<Rightarrow> if c = of_char CHR ''+'' then t else s)
      in 7 \<le> length r \<and> length r \<le> 20 \<and> list_all phoneChar r)"

section \<open>Data model and storage\<close>

text \<open>
  A product as \<^verbatim>\<open>JSON.parse\<close> gives it. The id is an integer; the ids the program can
  hold are the integers that are doubles.
\<close>

record product =
  p_id :: int
  p_name :: jsstring
  p_image :: jsstring
  p_description :: jsstring
  p_packaging :: jsstring
  p_category :: jsstring
  p_price :: jsnum
  p_createdAt :: "jsstring option"
  p_updatedAt :: "jsstring option"

record submission =
  s_id :: jsstring
  s_firstName :: jsstring
  s_lastName :: jsstring
  s_email :: jsstring
  s_phone :: "jsstring option"
  s_subject :: jsstring
  s_message :: jsstring
  s_status :: jsstring
  s_createdAt :: jsstring
  s_updatedAt :: "jsstring option"
  s_ipAddress :: jsstring
  s_userAgent :: "jsstring option"

text \<open>
  A JSON file holding one array: its directory may be missing, the file may be missing,
  the file may be unreadable (no permission, not JSON), or it stores the array.
\<close>

datatype 'a storage = DirMissing | FileMissing | Unreadable | Stored "'a list"

text \<open>
  The state the server works on: the two files and the number of calls of
  \<^verbatim>\<open>fs.writeFile\<close> made so far.
\<close>

record world =
  products_store :: "product storage"
  submissions_store :: "submission storage"
  write_calls :: nat

text \<open>
  What a request takes from its environment: the clock
  (\<^verbatim>\<open>new Date().toISOString()\<close>), whether the file system accepts writes
  (\<^verbatim>\<open>fs.writeFile\<close>, \<^verbatim>\<open>fs.mkdir\<close>) while the request runs, the value
  \<^verbatim>\<open>uuidv4()\<close> returns, the caller's address and user agent, and the largest number of
  arguments the engine accepts in one call (a spread call with more raises a
  \<^verbatim>\<open>RangeError\<close>).
\<close>

record env =
  now :: jsstring
  fs_writable :: bool
  uuid :: jsstring
  ip :: jsstring
  user_agent :: "jsstring option"
  max_arguments :: nat

text \<open>\<^verbatim>\<open>JSON.parse(await fs.readFile(...))\<close>; \<open>None\<close> when it throws.\<close>

definition readJSON :: "'a storage \<Rightarrow> 'a list option" where
  "readJSON st = (case st of Stored xs \<Rightarrow> Some xs | _ \<Rightarrow> None)"

text \<open>\<^verbatim>\<open>fs.writeFile(..., JSON.stringify(xs))\<close>; \<open>None\<close> when it throws.\<close>

definition writeJSON :: "env \<Rightarrow> 'a list \<Rightarrow> 'a storage \<Rightarrow> 'a storage option" where
  "writeJSON E xs st =
     (case st of
        DirMissing \<Rightarrow> None
      | _ \<Rightarrow> if fs_writable E then Some (Stored xs) else None)"

definition getProductsData :: "world \<Rightarrow> product list" where
  "getProductsData w = (case readJSON (products_store w) of Some ps \<Rightarrow> ps | None \<Rightarrow> [])"

definition saveProductsData :: "env \<Rightarrow> product list \<Rightarrow> world \<Rightarrow> bool \<times> world" where
  "saveProductsData E products w =
     (case writeJSON E products (products_store w) of
        Some st \<Rightarrow> (True, w\<lparr>products_store := st, write_calls := Suc (write_calls w)\<rparr>)
      | None \<Rightarrow> (False, w\<lparr>write_calls := Suc (write_calls w)\<rparr>))"

text \<open>
  \<^verbatim>\<open>ensureDataDirectory\<close> creates the data directory when it is missing; the flag
  says whether it returned (\<open>False\<close>: \<^verbatim>\<open>fs.mkdir\<close> threw).
\<close>

definition ensureDataDirectory :: "env \<Rightarrow> world \<Rightarrow> bool \<times> world" where
  "ensureDataDirectory E w =
     (case submissions_store w of
        DirMissing \<Rightarrow>
          if fs_writable E then (True, w\<lparr>submissions_store := FileMissing\<rparr>) else (False, w)
      | _ \<Rightarrow> (True, w))"

definition getSubmissions :: "env \<Rightarrow> world \<Rightarrow> submission list \<times> world" where
  "getSubmissions E w =
     (let (ok, w) = ensureDataDirectory E w
      in if \<not> ok then ([], w)
         else (case readJSON (submissions_store w) of Some xs \<Rightarrow> (xs, w) | None \<Rightarrow> ([], w)))"

definition saveSubmissions :: "env \<Rightarrow> submission list \<Rightarrow> world \<Rightarrow> bool \<times> world" where
  "saveSubmissions E submissions w =
     (let (ok, w) = ensureDataDirectory E w
      in if \<not> ok then (False, w)
         else (case writeJSON E submissions (submissions_store w) of
                 Some st \<Rightarrow> (True, w\<lparr>submissions_store := st, write_calls := Suc (write_calls w)\<rparr>)
               | None \<Rightarrow> (False, w\<lparr>write_calls := Suc (write_calls w)\<rparr>)))"

text \<open>
  The collection a read of the submissions file yields: what \<^verbatim>\<open>getSubmissions\<close> returns,
  without its side effect on the directory.
\<close>

definition stored_submissions :: "world \<Rightarrow> submission list" where
  "stored_submissions w = (case readJSON (submissions_store w) of Some xs \<Rightarrow> xs | None \<Rightarrow> [])"

section \<open>Responses\<close>

text \<open>
  The JSON envelope \<^verbatim>\<open>{success, message?, error?, errors?, count?, categories?, data?}\<close>
  with its HTTP status. \<open>Receipt id submittedAt\<close> is the \<^verbatim>\<open>data\<close> of a contact
  submission.
\<close>

datatype payload =
    Products "product list"
  | OneProduct product
  | Receipt jsstring jsstring
  | Submissions "submission list"
  | OneSubmission submission

record response =
  status :: nat
  success :: bool
  message :: "string option"
  error :: "string option"
  errors :: "(string \<times> string) list option"
  count :: "nat option"
  categories :: "jsstring list option"
  data :: "payload option"

definition json :: "nat \<Rightarrow> bool \<Rightarrow> response" where
  "json st ok =
     \<lparr>status = st, success = ok, message = None, error = None, errors = None,
      count = None, categories = None, data = None\<rparr>"

text \<open>
  \<^verbatim>\<open>handleValidationErrors\<close>: answers 400 with the (field, message) pairs when a rule
  failed; \<open>None\<close> is \<^verbatim>\<open>next()\<close>.
\<close>

definition handleValidationErrors :: "(string \<times> string) list \<Rightarrow> response option" where
  "handleValidationErrors errs =
     (if errs \<noteq> [] then Some ((json 400 False)\<lparr>errors := Some errs\<rparr>) else None)"

text \<open>
  The global error handler, for the error objects the routes pass to \<^verbatim>\<open>next\<close>
  (the stack and details added in development mode are left out).
\<close>

record js_error =
  e_name :: string
  e_message :: string
  e_statusCode :: "nat option"
  e_code :: "string option"
  e_body :: bool

definition new_Error :: "string \<Rightarrow> js_error" where
  "new_Error msg =
     \<lparr>e_name = ''Error'', e_message = msg, e_statusCode = None, e_code = None, e_body = False\<rparr>"

text \<open>The error of a spread call with too many arguments (the message is V8's).\<close>

definition new_RangeError :: js_error where
  "new_RangeError =
     \<lparr>e_name = ''RangeError'', e_message = ''Maximum call stack size exceeded'',
      e_statusCode = None, e_code = None, e_body = False\<rparr>"

definition errorHandler :: "js_error \<Rightarrow> response" where
  "errorHandler err =
     (let statusCode = (case e_statusCode err of
                          None \<Rightarrow> 500
                        | Some c \<Rightarrow> if c = 0 then 500 else c);
          msg = (if e_message err = [] then ''Internal Server Error'' else e_message err);
          (statusCode, msg) =
            (if e_name err = ''ValidationError'' then (400, ''Validation Error'')
             else (statusCode, msg));
          (statusCode, msg) =
            (if e_name err = ''SyntaxError'' \<and> e_body err
             then (400, ''Invalid JSON in request body'')
             else (statusCode, msg));
          (statusCode, msg) =
            (if e_code err = Some ''ENOENT'' then (404, ''Resource not found'')
             else (statusCode, msg))
      in (json statusCode False)\<lparr>error := Some msg\<rparr>)"

section \<open>Products routes\<close>

record product_query =
  q_category :: "jsstring option"
  q_search :: "jsstring option"
  q_minPrice :: "jsstring option"
  q_maxPrice :: "jsstring option"
  q_sort :: "jsstring option"

text \<open>\<^verbatim>\<open>if (v) { products = products.filter(...) }\<close>\<close>

definition filter_if :: "jsstring option \<Rightarrow> (jsstring \<Rightarrow> 'a \<Rightarrow> bool) \<Rightarrow> 'a list \<Rightarrow> 'a list" where
  "filter_if v P xs = (if truthy v then filter (P (the v)) xs else xs)"

definition sort_products :: "lib \<Rightarrow> jsstring option \<Rightarrow> product list \<Rightarrow> product list" where
  "sort_products L srt products =
     (if \<not> truthy srt then products
      else if srt = Some (str ''price_asc'')
        then sort_js (\<lambda>a b. js_sub (p_price a) (p_price b)) products
      else if srt = Some (str ''price_desc'')
        then sort_js (\<lambda>a b. js_sub (p_price b) (p_price a)) products
      else if srt = Some (str ''name_asc'')
        then sort_js (\<lambda>a b. localeCompare L (p_name a) (p_name b)) products
      else if srt = Some (str ''name_desc'')
        then sort_js (\<lambda>a b. localeCompare L (p_name b) (p_name a)) products
      else products)"

text \<open>\<^verbatim>\<open>GET /api/products\<close>\<close>

definition GET_products :: "lib \<Rightarrow> product_query \<Rightarrow> world \<Rightarrow> response \<times> world" where
  "GET_products L q w =
     (let products = getProductsData w;
          products = filter_if (q_category q)
            (\<lambda>category p. toLowerCase L (p_category p) = toLowerCase L category) products;
          products = filter_if (q_search q)
            (\<lambda>search p. str_includes (toLowerCase L (p_name p)) (toLowerCase L search) \<or>
                         str_includes (toLowerCase L (p_description p)) (toLowerCase L search))
            products;
          products = filter_if (q_minPrice q)
            (\<lambda>minPrice p. js_ge (p_price p) (parseFloat L minPrice)) products;
          products = filter_if (q_maxPrice q)
            (\<lambda>maxPrice p. js_le (p_price p) (parseFloat L maxPrice)) products;
          products = sort_products L (q_sort q) products;
          allProducts = getProductsData w;
          cats = new_Set (map p_category allProducts)
      in ((json 200 True)\<lparr>count := Some (length products), categories := Some cats,
                          data := Some (Products products)\<rparr>, w))"

definition id_checks :: "jsstring \<Rightarrow> (string \<times> string) list" where
  "id_checks idp = (if isNumeric idp then [] else [(''id'', ''Product ID must be a number'')])"

definition not_found :: "string \<Rightarrow> response" where
  "not_found msg = (json 404 False)\<lparr>error := Some msg\<rparr>"

text \<open>
  \<^verbatim>\<open>p.id === parseInt(req.params.id)\<close>: a comparison of numbers, never true when
  \<^verbatim>\<open>parseInt\<close> is NaN or an infinity.
\<close>

definition id_matches :: "jsstring \<Rightarrow> product \<Rightarrow> bool" where
  "id_matches idp p = (parseInt idp = Fin (of_int (p_id p)))"

text \<open>\<^verbatim>\<open>GET /api/products/:id\<close>\<close>

definition GET_product :: "jsstring \<Rightarrow> world \<Rightarrow> response \<times> world" where
  "GET_product idp w =
     (case handleValidationErrors (id_checks idp) of
        Some r \<Rightarrow> (r, w)
      | None \<Rightarrow>
          (let products = getProductsData w
           in case find (id_matches idp) products of
                None \<Rightarrow> (not_found ''Product not found'', w)
              | Some product \<Rightarrow> ((json 200 True)\<lparr>data := Some (OneProduct product)\<rparr>, w)))"

record product_body =
  b_name :: "jsstring option"
  b_image :: "jsstring option"
  b_description :: "jsstring option"
  b_packaging :: "jsstring option"
  b_category :: "jsstring option"
  b_price :: "jsstring option"

definition required :: "string \<Rightarrow> string \<Rightarrow> jsstring option \<Rightarrow> (string \<times> string) list" where
  "required field msg v = (if notEmpty (trim (field_str v)) then [] else [(field, msg)])"

definition create_checks :: "lib \<Rightarrow> product_body \<Rightarrow> (string \<times> string) list" where
  "create_checks L b =
     required ''name'' ''Product name is required'' (b_name b) @
     required ''description'' ''Description is required'' (b_description b) @
     required ''category'' ''Category is required'' (b_category b) @
     required ''packaging'' ''Packaging is required'' (b_packaging b) @
     (if isFloat_min0 L (field_str (b_price b)) then []
      else [(''price'', ''Price must be a positive number'')])"

text \<open>
  \<^verbatim>\<open>products.length > 0 ? Math.max(...products.map(p => p.id)) : 0\<close>; \<open>None\<close> when the
  spread call has more arguments than the engine accepts and raises a \<^verbatim>\<open>RangeError\<close>.
\<close>

definition maxId :: "env \<Rightarrow> product list \<Rightarrow> int option" where
  "maxId E products =
     (case map p_id products of
        [] \<Rightarrow> Some 0
      | x # xs \<Rightarrow> if max_arguments E < length products then None else Some (fold max xs x))"

text \<open>
  The object literal \<^verbatim>\<open>newProduct\<close> of \<^verbatim>\<open>POST /api/products\<close>, built from the
  body as the sanitizers left it; \<^verbatim>\<open>maxId + 1\<close> is a sum of doubles.
\<close>

definition new_product :: "lib \<Rightarrow> env \<Rightarrow> product_body \<Rightarrow> int \<Rightarrow> product" where
  "new_product L E b m =
     \<lparr>p_id = roundInt (m + 1),
      p_name = trim (field_str (b_name b)),
      p_image = (if truthy (b_image b) then the (b_image b)
                 else str ''Images/Maschem-dish-deluxe.png''),
      p_description = trim (field_str (b_description b)),
      p_packaging = trim (field_str (b_packaging b)),
      p_category = trim (field_str (b_category b)),
      p_price = parseFloat L (field_str (b_price b)),
      p_createdAt = Some (now E),
      p_updatedAt = None\<rparr>"

text \<open>
  \<^verbatim>\<open>POST /api/products\<close>; an error raised in the handler goes to the global error
  handler.
\<close>

definition POST_products :: "lib \<Rightarrow> env \<Rightarrow> product_body \<Rightarrow> world \<Rightarrow> response \<times> world" where
  "POST_products L E b w =
     (case handleValidationErrors (create_checks L b) of
        Some r \<Rightarrow> (r, w)
      | None \<Rightarrow>
          (let products = getProductsData w
           in case maxId E products of
                None \<Rightarrow> (errorHandler new_RangeError, w)
              | Some m \<Rightarrow>
                  (let newProduct = new_product L E b m;
                       products = products @ [newProduct];
                       (saved, w) = saveProductsData E products w
                   in ((json 201 True)\<lparr>message := Some ''Product created successfully'',
                                       data := Some (OneProduct newProduct)\<rparr>, w))))"

text \<open>
  The body of an update: every field optional, the price a JSON number (for which
  \<^verbatim>\<open>isFloat({ min: 0 })\<close> holds exactly when it is not negative).
\<close>

record product_patch =
  u_name :: "jsstring option"
  u_image :: "jsstring option"
  u_description :: "jsstring option"
  u_packaging :: "jsstring option"
  u_category :: "jsstring option"
  u_price :: "rat option"

definition update_checks :: "jsstring \<Rightarrow> product_patch \<Rightarrow> (string \<times> string) list" where
  "update_checks idp b =
     id_checks idp @
     (case u_name b of
        None \<Rightarrow> []
      | Some n \<Rightarrow> if notEmpty (trim n) then [] else [(''name'', ''Product name cannot be empty'')]) @
     (case u_price b of
        None \<Rightarrow> []
      | Some r \<Rightarrow> if 0 \<le> r then [] else [(''price'', ''Price must be a positive number'')])"

definition override :: "'a option \<Rightarrow> 'a \<Rightarrow> 'a" where
  "override v old = (case v of None \<Rightarrow> old | Some x \<Rightarrow> x)"

text \<open>\<^verbatim>\<open>{...products[index], ...req.body, id: products[index].id, updatedAt: ...}\<close>\<close>

definition merge_product :: "env \<Rightarrow> product \<Rightarrow> product_patch \<Rightarrow> product" where
  "merge_product E old b =
     \<lparr>p_id = p_id old,
      p_name = override (map_option trim (u_name b)) (p_name old),
      p_image = override (u_image b) (p_image old),
      p_description = override (u_description b) (p_description old),
      p_packaging = override (u_packaging b) (p_packaging old),
      p_category = override (u_category b) (p_category old),
      p_price = override (map_option Fin (u_price b)) (p_price old),
      p_createdAt = p_createdAt old,
      p_updatedAt = Some (now E)\<rparr>"

text \<open>\<^verbatim>\<open>PUT /api/products/:id\<close>\<close>

definition PUT_product :: "env \<Rightarrow> jsstring \<Rightarrow> product_patch \<Rightarrow> world \<Rightarrow> response \<times> world" where
  "PUT_product E idp b w =
     (case handleValidationErrors (update_checks idp b) of
        Some r \<Rightarrow> (r, w)
      | None \<Rightarrow>
          (let products = getProductsData w
           in case findIndex (id_matches idp) products of
                None \<Rightarrow> (not_found ''Product not found'', w)
              | Some index \<Rightarrow>
                  (let updatedProduct = merge_product E (products ! index) b;
                       products = products[index := updatedProduct];
                       (saved, w) = saveProductsData E products w
                   in ((json 200 True)\<lparr>message := Some ''Product updated successfully'',
                                       data := Some (OneProduct updatedProduct)\<rparr>, w))))"

text \<open>\<^verbatim>\<open>DELETE /api/products/:id\<close>\<close>

definition DELETE_product :: "env \<Rightarrow> jsstring \<Rightarrow> world \<Rightarrow> response \<times> world" where
  "DELETE_product E idp w =
     (case handleValidationErrors (id_checks idp) of
        Some r \<Rightarrow> (r, w)
      | None \<Rightarrow>
          (let products = getProductsData w
           in case findIndex (id_matches idp) products of
                None \<Rightarrow> (not_found ''Product not found'', w)
              | Some index \<Rightarrow>
                  (let deletedProduct = products ! index;
                       products = splice1 index products;
                       (saved, w) = saveProductsData E products w
                   in ((json 200 True)\<lparr>message := Some ''Product deleted successfully'',
                                       data := Some (OneProduct deletedProduct)\<rparr>, w))))"

section \<open>Contact routes\<close>

record contact_body =
  c_firstName :: "jsstring option"
  c_lastName :: "jsstring option"
  c_email :: "jsstring option"
  c_phone :: "jsstring option"
  c_subject :: "jsstring option"
  c_message :: "jsstring option"

text \<open>
  One definition per validation chain of \<^verbatim>\<open>POST /api/contact\<close>. A chain goes on after
  a failed rule, so a field can report several messages.
\<close>

definition firstName_checks :: "contact_body \<Rightarrow> (string \<times> string) list" where
  "firstName_checks b =
     (let v = trim (field_str (c_firstName b))
      in (if notEmpty v then [] else [(''firstName'', ''First name is required'')]) @
         (if isLength 2 50 v then []
          else [(''firstName'', ''First name must be 2-50 characters'')]))"

definition lastName_checks :: "contact_body \<Rightarrow> (string \<times> string) list" where
  "lastName_checks b =
     (let v = trim (field_str (c_lastName b))
      in (if notEmpty v then [] else [(''lastName'', ''Last name is required'')]) @
         (if isLength 2 50 v then []
          else [(''lastName'', ''Last name must be 2-50 characters'')]))"

definition email_checks :: "lib \<Rightarrow> contact_body \<Rightarrow> (string \<times> string) list" where
  "email_checks L b =
     (let v = trim (field_str (c_email b))
      in (if notEmpty v then [] else [(''email'', ''Email is required'')]) @
         (if isEmail L v then []
          else [(''email'', ''Please provide a valid email address'')]))"

definition phone_checks :: "contact_body \<Rightarrow> (string \<times> string) list" where
  "phone_checks b =
     (case c_phone b of
        None \<Rightarrow> []
      | Some p \<Rightarrow>
          if matchesPhone (trim p) then []
          else [(''phone'', ''Please provide a valid phone number'')])"

definition subject_checks :: "contact_body \<Rightarrow> (string \<times> string) list" where
  "subject_checks b =
     (let v = trim (field_str (c_subject b))
      in (if notEmpty v then [] else [(''subject'', ''Subject is required'')]) @
         (if isIn [str ''general'', str ''products'', str ''orders'', str ''support'', str ''partnership''] v then []
          else [(''subject'', ''Invalid subject selected'')]))"

definition message_checks :: "contact_body \<Rightarrow> (string \<times> string) list" where
  "message_checks b =
     (let v = trim (field_str (c_message b))
      in (if notEmpty v then [] else [(''message'', ''Message is required'')]) @
         (if isLength 10 2000 v then []
          else [(''message'', ''Message must be 10-2000 characters'')]))"

definition contact_checks :: "lib \<Rightarrow> contact_body \<Rightarrow> (string \<times> string) list" where
  "contact_checks L b =
     firstName_checks b @ lastName_checks b @ email_checks L b @ phone_checks b @
     subject_checks b @ message_checks b"

text \<open>
  The object literal \<^verbatim>\<open>newSubmission\<close> of \<^verbatim>\<open>POST /api/contact\<close>, built from the
  body as the sanitizers left it (\<^verbatim>\<open>phone: req.body.phone || null\<close>).
\<close>

definition new_submission :: "lib \<Rightarrow> env \<Rightarrow> contact_body \<Rightarrow> submission" where
  "new_submission L E b =
     (let phone = map_option trim (c_phone b)
      in \<lparr>s_id = uuid E,
          s_firstName = trim (field_str (c_firstName b)),
          s_lastName = trim (field_str (c_lastName b)),
          s_email = normalizeEmail L (trim (field_str (c_email b))),
          s_phone = (if truthy phone then phone else None),
          s_subject = trim (field_str (c_subject b)),
          s_message = trim (field_str (c_message b)),
          s_status = str ''pending'',
          s_createdAt = now E,
          s_updatedAt = None,
          s_ipAddress = ip E,
          s_userAgent = user_agent E\<rparr>)"

text \<open>\<^verbatim>\<open>POST /api/contact\<close>\<close>

definition POST_contact :: "lib \<Rightarrow> env \<Rightarrow> contact_body \<Rightarrow> world \<Rightarrow> response \<times> world" where
  "POST_contact L E b w =
     (case handleValidationErrors (contact_checks L b) of
        Some r \<Rightarrow> (r, w)
      | None \<Rightarrow>
          (let (submissions, w) = getSubmissions E w;
               newSubmission = new_submission L E b;
               submissions = submissions @ [newSubmission];
               (saved, w) = saveSubmissions E submissions w
           in if \<not> saved then (errorHandler (new_Error ''Failed to save submission''), w)
              else ((json 201 True)
                      \<lparr>message := Some ''Thank you for your message! We will get back to you soon.'',
                       data := Some (Receipt (s_id newSubmission) (s_createdAt newSubmission))\<rparr>,
                    w)))"

record submissions_query =
  sq_status :: "jsstring option"
  sq_sort :: "jsstring option"

text \<open>\<^verbatim>\<open>GET /api/contact/submissions\<close>\<close>

definition GET_submissions :: "lib \<Rightarrow> env \<Rightarrow> submissions_query \<Rightarrow> world \<Rightarrow> response \<times> world" where
  "GET_submissions L E q w =
     (let (submissions, w) = getSubmissions E w;
          filteredSubmissions =
            filter_if (sq_status q) (\<lambda>st s. s_status s = st) submissions;
          filteredSubmissions =
            (if sq_sort q = Some (str ''oldest'')
             then sort_js (\<lambda>a b. js_sub (dateValue L (s_createdAt a)) (dateValue L (s_createdAt b)))
                    filteredSubmissions
             else sort_js (\<lambda>a b. js_sub (dateValue L (s_createdAt b)) (dateValue L (s_createdAt a)))
                    filteredSubmissions)
      in ((json 200 True)\<lparr>count := Some (length filteredSubmissions),
                          data := Some (Submissions filteredSubmissions)\<rparr>, w))"

definition status_checks :: "jsstring option \<Rightarrow> (string \<times> string) list" where
  "status_checks st =
     (if isIn [str ''pending'', str ''read'', str ''responded'', str ''archived''] (field_str st) then []
      else [(''status'', ''Invalid status'')])"

text \<open>\<^verbatim>\<open>PATCH /api/contact/submissions/:id\<close>\<close>

definition PATCH_submission :: "env \<Rightarrow> jsstring \<Rightarrow> jsstring option \<Rightarrow> world \<Rightarrow> response \<times> world" where
  "PATCH_submission E idp st w =
     (case handleValidationErrors (status_checks st) of
        Some r \<Rightarrow> (r, w)
      | None \<Rightarrow>
          (let (submissions, w) = getSubmissions E w
           in case findIndex (\<lambda>s. s_id s = idp) submissions of
                None \<Rightarrow> (not_found ''Submission not found'', w)
              | Some index \<Rightarrow>
                  (let submissions = submissions
                         [index := (submissions ! index)
                            \<lparr>s_status := field_str st, s_updatedAt := Some (now E)\<rparr>];
                       (saved, w) = saveSubmissions E submissions w
                   in ((json 200 True)\<lparr>message := Some ''Submission updated successfully'',
                                       data := Some (OneSubmission (submissions ! index))\<rparr>, w))))"

text \<open>\<^verbatim>\<open>DELETE /api/contact/submissions/:id\<close>\<close>

definition DELETE_submission :: "env \<Rightarrow> jsstring \<Rightarrow> world \<Rightarrow> response \<times> world" where
  "DELETE_submission E idp w =
     (let (submissions, w) = getSubmissions E w
      in case findIndex (\<lambda>s. s_id s = idp) submissions of
           None \<Rightarrow> (not_found ''Submission not found'', w)
         | Some index \<Rightarrow>
             (let deleted = submissions ! index;
                  submissions = splice1 index submissions;
                  (saved, w) = saveSubmissions E submissions w
              in ((json 200 True)\<lparr>message := Some ''Submission deleted successfully'',
                                  data := Some (OneSubmission deleted)\<rparr>, w)))"

section \<open>Successive requests\<close>

text \<open>
  A sequence of create requests, each with its own environment and body, run one after
  the other: the responses in order and the final state.
\<close>

fun create_all :: "lib \<Rightarrow> (env \<times> product_body) list \<Rightarrow> world \<Rightarrow> response list \<times> world" where
  "create_all L [] w = ([], w)"
| "create_all L ((E, b) # rest) w =
     (let (r, w1) = POST_products L E b w;
          (rs, w2) = create_all L rest w1
      in (r # rs, w2))"

text \<open>The id of the product a response carries as its data.\<close>

definition created_id :: "response \<Rightarrow> int option" where
  "created_id r = (case data r of Some (OneProduct p) \<Rightarrow> Some (p_id p) | _ \<Rightarrow> None)"

section \<open>The number a numeric id denotes\<close>

text \<open>
  The number written by a string that passes \<^verbatim>\<open>isNumeric\<close> (a sign, integer digits, a
  point and fraction digits), and the truncation of a number to an integer: the reading
  of "integer truncation of the id", to be compared with the \<^verbatim>\<open>parseInt\<close> of the routes.
\<close>

definition numericValue :: "jsstring \<Rightarrow> rat" where
  "numericValue s =
     (let (neg, s1) = splitSign s;
          ip = takeWhile isDigit s1;
          fp = drop 1 (dropWhile isDigit s1);
          v = of_nat (digitsValue 10 ip) + of_nat (digitsValue 10 fp) / 10 ^ length fp
      in if neg then - v else v)"

definition truncation :: "rat \<Rightarrow> int" where
  "truncation r = (if 0 \<le> r then \<lfloor>r\<rfloor> else \<lceil>r\<rceil>)"

text \<open>Whether a string has a digit before its decimal point (after the sign).\<close>

definition hasIntegerPart :: "jsstring \<Rightarrow> bool" where
  "hasIntegerPart s = (takeWhile isDigit (snd (splitSign s)) \<noteq> [])"


section \<open>Example inputs\<close>

text \<open>Concrete libraries, environments, records and states on which the routes are run.\<close>

definition lowerASCII :: "jsstring \<Rightarrow> jsstring" where
  "lowerASCII s = map (\<lambda>c. if 65 \<le> c \<and> c \<le> 90 then c + 32 else c) s"

definition lib0 :: lib where
  "lib0 = \<lparr>toLowerCase = lowerASCII, localeCompare = (\<lambda>a b. Fin 0), number = Fin,
           dateValue = (\<lambda>s. NaN), isEmail = (\<lambda>s. of_char CHR ''@'' \<in> set s),
           normalizeEmail = lowerASCII\<rparr>"

definition env_ok :: env where
  "env_ok = \<lparr>now = str ''2024-05-01T10:00:00.000Z'', fs_writable = True,
             uuid = str ''3f2b8c1e-0000-4000-8000-000000000001'', ip = str ''127.0.0.1'',
             user_agent = Some (str ''curl''), max_arguments = 100000\<rparr>"

definition env_fail :: env where
  "env_fail = env_ok\<lparr>fs_writable := False\<rparr>"

definition query_all :: product_query where
  "query_all = \<lparr>q_category = None, q_search = None, q_minPrice = None, q_maxPrice = None,
                q_sort = None\<rparr>"

definition soap :: product where
  "soap = \<lparr>p_id = 2, p_name = str ''Hand Soap'', p_image = str ''Images/soap.png'',
           p_description = str ''Liquid hand soap'', p_packaging = str ''5L'',
           p_category = str ''Sanitizers'', p_price = Fin (4599 / 100),
           p_createdAt = None, p_updatedAt = None\<rparr>"

definition bleach :: product where
  "bleach = \<lparr>p_id = 5, p_name = str ''Bleach'', p_image = str ''Images/bleach.png'',
             p_description = str ''Thick bleach'', p_packaging = str ''750ml'',
             p_category = str ''Laundry Care'', p_price = Fin 18,
             p_createdAt = None, p_updatedAt = None\<rparr>"

definition product_zero :: product where
  "product_zero = \<lparr>p_id = 0, p_name = str ''Sample'', p_image = str ''Images/sample.png'',
                   p_description = str ''Free sample'', p_packaging = str ''50ml'',
                   p_category = str ''Sanitizers'', p_price = Fin 0,
                   p_createdAt = None, p_updatedAt = None\<rparr>"

definition product_big :: product where
  "product_big = soap\<lparr>p_id := 9007199254740992\<rparr>"

definition world_soap :: world where
  "world_soap = \<lparr>products_store = Stored [soap], submissions_store = FileMissing,
                 write_calls = 0\<rparr>"

definition world_two :: world where
  "world_two = \<lparr>products_store = Stored [soap, bleach], submissions_store = FileMissing,
                write_calls = 0\<rparr>"

definition world_zero :: world where
  "world_zero = \<lparr>products_store = Stored [product_zero], submissions_store = FileMissing,
                 write_calls = 0\<rparr>"

definition world_big :: world where
  "world_big = \<lparr>products_store = Stored [product_big], submissions_store = FileMissing,
                write_calls = 0\<rparr>"

definition world_unreadable :: world where
  "world_unreadable = \<lparr>products_store = Unreadable, submissions_store = FileMissing,
                       write_calls = 0\<rparr>"

definition world_empty :: world where
  "world_empty = \<lparr>products_store = Stored [], submissions_store = DirMissing, write_calls = 0\<rparr>"

definition body_new :: product_body where
  "body_new = \<lparr>b_name = Some (str ''Dish Deluxe''), b_image = None,
               b_description = Some (str ''Dishwashing liquid''),
               b_packaging = Some (str ''750ml''),
               b_category = Some (str ''Cleaning Chemicals''), b_price = Some (str ''29.99'')\<rparr>"

definition patch_price :: product_patch where
  "patch_price = \<lparr>u_name = None, u_image = None, u_description = None, u_packaging = None,
                  u_category = None, u_price = Some 35\<rparr>"

definition contact_jo :: contact_body where
  "contact_jo = \<lparr>c_firstName = Some (str ''Jo''), c_lastName = Some (str ''Doe''),
                 c_email = Some (str ''jo@x.com''), c_phone = None,
                 c_subject = Some (str ''general''),
                 c_message = Some (str ''Hello there, need info'')\<rparr>"

text \<open>A message of nine characters followed by a no-break space, and one of ten.\<close>

definition contact_nine :: contact_body where
  "contact_nine = contact_jo\<lparr>c_message := Some (str ''  Call me!!'' @ [160])\<rparr>"

definition contact_ten :: contact_body where
  "contact_ten = contact_jo\<lparr>c_message := Some (str ''Call me!!!'')\<rparr>"

definition sub_ann :: submission where
  "sub_ann = \<lparr>s_id = str ''a1'', s_firstName = str ''Ann'', s_lastName = str ''Lee'',
              s_email = str ''ann@x.com'', s_phone = None, s_subject = str ''orders'',
              s_message = str ''Where is my order?'', s_status = str ''pending'',
              s_createdAt = str ''2024-04-30T08:00:00.000Z'', s_updatedAt = None,
              s_ipAddress = str ''127.0.0.1'', s_userAgent = None\<rparr>"

definition world_ann :: world where
  "world_ann = \<lparr>products_store = Stored [soap], submissions_store = Stored [sub_ann],
                write_calls = 0\<rparr>"

text \<open>A stored submission that already has the identifier \<open>env_ok\<close> will generate.\<close>

definition sub_same :: submission where
  "sub_same = sub_ann\<lparr>s_id := str ''3f2b8c1e-0000-4000-8000-000000000001''\<rparr>"

definition world_same :: world where
  "world_same = \<lparr>products_store = Stored [soap], submissions_store = Stored [sub_same],
                 write_calls = 0\<rparr>"

section \<open>Properties of the routes\<close>

subsection \<open>Numbers\<close>

lemma binaryScale_small: "a < 2 ^ 53 \<Longrightarrow> binaryScale a = 0"
  by (subst binaryScale.simps) simp

lemma binaryScale_step: "\<not> a < 2 ^ 53 \<Longrightarrow> binaryScale a = Suc (binaryScale (a div 2))"
  by (subst binaryScale.simps) simp

lemma roundInt_below: "\<bar>n\<bar> < 2 ^ 53 \<Longrightarrow> roundInt n = n"
proof -
  assume b: "\<bar>n\<bar> < 2 ^ 53"
  then have "nat \<bar>n\<bar> < 2 ^ 53"
    by (simp add: nat_less_iff)
  then have "binaryScale (nat \<bar>n\<bar>) = 0"
    by (rule binaryScale_small)
  then show ?thesis
    by (simp add: roundInt_def Let_def mult_sgn_abs)
qed

lemma roundInt_safe: "\<bar>n\<bar> \<le> 2 ^ 53 \<Longrightarrow> roundInt n = n"
proof (cases "\<bar>n\<bar> < 2 ^ 53")
  case True
  then show ?thesis by (rule roundInt_below)
next
  case False
  assume "\<bar>n\<bar> \<le> 2 ^ 53"
  with False have a: "\<bar>n\<bar> = 9007199254740992" by simp
  then have n: "nat \<bar>n\<bar> = 9007199254740992"
    by simp
  have e: "binaryScale 9007199254740992 = 1"
    by (simp add: binaryScale_small binaryScale_step)
  have "sgn n * \<bar>n\<bar> = n"
    by (rule mult_sgn_abs)
  then have "sgn n * 9007199254740992 = n"
    by (simp only: a)
  then show ?thesis
    by (simp add: roundInt_def Let_def n e)
qed

lemma numberOfInt_safe: "\<bar>n\<bar> \<le> 2 ^ 53 \<Longrightarrow> numberOfInt n = Fin (of_int n)"
proof -
  assume b: "\<bar>n\<bar> \<le> 2 ^ 53"
  have "(2::int) ^ 53 < 2 ^ 1024"
    by (rule power_strict_increasing) simp_all
  with b have "\<not> 2 ^ 1024 \<le> \<bar>n\<bar>" by linarith
  then show ?thesis
    by (simp add: numberOfInt_def roundInt_safe [OF b])
qed

lemma str_eq_iff: "str a = str b \<longleftrightarrow> a = b"
proof -
  have "inj (of_char :: char \<Rightarrow> nat)"
    by (rule injI) simp
  then show ?thesis
    by (simp add: str_def inj_map_eq_map)
qed

subsection \<open>Sorting, filtering and searching\<close>

lemma filter_if_Nil: "filter_if v P [] = []"
  by (simp add: filter_if_def)

lemma set_filter_if: "set (filter_if v P xs) \<subseteq> set xs"
  by (auto simp: filter_if_def)

lemma set_insert_js: "set (insert_js cmp x ys) = insert x (set ys)"
  by (induction ys) auto

lemma set_sort_js: "set (sort_js cmp xs) = set xs"
  by (induction xs) (simp_all add: sort_js_def set_insert_js)

lemma sort_js_Nil: "sort_js cmp [] = []"
  by (simp add: sort_js_def)

lemma set_sort_products: "set (sort_products L srt ps) = set ps"
  by (simp add: sort_products_def set_sort_js)

lemma sort_products_Nil: "sort_products L srt [] = []"
  by (simp add: sort_products_def sort_js_Nil)

lemma new_Set_Nil: "new_Set [] = []"
  by (simp add: new_Set_def)

lemma new_Set_fold_set:
  "set (foldl (\<lambda>acc x. if x \<in> set acc then acc else acc @ [x]) acc xs) = set acc \<union> set xs"
  by (induction xs arbitrary: acc) auto

lemma new_Set_fold_distinct:
  "distinct acc \<Longrightarrow> distinct (foldl (\<lambda>acc x. if x \<in> set acc then acc else acc @ [x]) acc xs)"
  by (induction xs arbitrary: acc) auto

lemma set_new_Set: "set (new_Set xs) = set xs"
  by (simp add: new_Set_def new_Set_fold_set)

lemma distinct_new_Set: "distinct (new_Set xs)"
  by (simp add: new_Set_def new_Set_fold_distinct)

lemma js_le_NaN: "js_le a NaN = False"
  by (cases a) simp_all

lemma js_ge_NaN: "js_ge a NaN = False"
  by (simp add: js_ge_def)

lemma filter_if_NaN_min:
  "m \<noteq> [] \<Longrightarrow> parseFloat L m = NaN \<Longrightarrow>
   filter_if (Some m) (\<lambda>minPrice p. js_ge (p_price p) (parseFloat L minPrice)) ps = []"
  by (simp add: filter_if_def truthy_def js_ge_NaN)

lemma filter_if_NaN_max:
  "m \<noteq> [] \<Longrightarrow> parseFloat L m = NaN \<Longrightarrow>
   filter_if (Some m) (\<lambda>maxPrice p. js_le (p_price p) (parseFloat L maxPrice)) ps = []"
  by (simp add: filter_if_def truthy_def js_le_NaN)

lemma findIndex_None_iff: "findIndex P xs = None \<longleftrightarrow> (\<forall>x \<in> set xs. \<not> P x)"
  by (induction xs) auto

lemma findIndex_Some:
  "findIndex P xs = Some i \<Longrightarrow> i < length xs \<and> P (xs ! i) \<and> (\<forall>j < i. \<not> P (xs ! j))"
proof (induction xs arbitrary: i)
  case Nil
  then show ?case by simp
next
  case (Cons x xs)
  show ?case
  proof (cases "P x")
    case True
    with Cons.prems show ?thesis by simp
  next
    case False
    with Cons.prems obtain k where k: "findIndex P xs = Some k" "i = Suc k"
      by auto
    from Cons.IH [OF k(1)] False k(2) show ?thesis
      by (auto simp: less_Suc_eq_0_disj)
  qed
qed

lemma findIndex_ex: "x \<in> set xs \<Longrightarrow> P x \<Longrightarrow> \<exists>i. findIndex P xs = Some i"
  using findIndex_None_iff [of P xs] by (cases "findIndex P xs") auto

lemma find_findIndex:
  "find P xs = Some x \<Longrightarrow>
   \<exists>i. findIndex P xs = Some i \<and> i < length xs \<and> xs ! i = x \<and> (\<forall>j < i. \<not> P (xs ! j))"
proof (induction xs)
  case Nil
  then show ?case by simp
next
  case (Cons y ys)
  show ?case
  proof (cases "P y")
    case True
    with Cons.prems show ?thesis by simp
  next
    case False
    with Cons.prems have "find P ys = Some x" by simp
    from Cons.IH [OF this] obtain i where
      "findIndex P ys = Some i" "i < length ys" "ys ! i = x" "\<forall>j < i. \<not> P (ys ! j)"
      by blast
    with False show ?thesis
      by (intro exI [of _ "Suc i"]) (auto simp: less_Suc_eq_0_disj)
  qed
qed

subsection \<open>Storage\<close>

lemma saveProductsData_fail:
  "\<not> fs_writable E \<Longrightarrow>
   saveProductsData E ps w = (False, w\<lparr>write_calls := Suc (write_calls w)\<rparr>)"
  by (simp add: saveProductsData_def writeJSON_def split: storage.splits)

lemma saveProductsData_ok:
  "fs_writable E \<Longrightarrow> products_store w \<noteq> DirMissing \<Longrightarrow>
   saveProductsData E ps w =
     (True, w\<lparr>products_store := Stored ps, write_calls := Suc (write_calls w)\<rparr>)"
  by (simp add: saveProductsData_def writeJSON_def split: storage.splits)

lemma saveProductsData_fail_store:
  "\<not> fs_writable E \<Longrightarrow> products_store (snd (saveProductsData E ps w)) = products_store w"
  by (simp add: saveProductsData_fail)

lemma getProductsData_save:
  "getProductsData (snd (saveProductsData E ps w)) = ps \<or>
   getProductsData (snd (saveProductsData E ps w)) = getProductsData w"
  by (simp add: saveProductsData_def writeJSON_def getProductsData_def readJSON_def
      split: storage.splits)

lemma getProductsData_saved:
  "fs_writable E \<Longrightarrow> getProductsData w \<noteq> [] \<Longrightarrow>
   getProductsData (snd (saveProductsData E ps w)) = ps"
  by (auto simp: saveProductsData_def writeJSON_def getProductsData_def readJSON_def
      split: storage.splits)

lemma getSubmissions_fst: "fst (getSubmissions E w) = stored_submissions w"
  by (simp add: getSubmissions_def ensureDataDirectory_def readJSON_def stored_submissions_def
      split: storage.splits)

lemma getSubmissions_snd: "snd (getSubmissions E w) = snd (ensureDataDirectory E w)"
  by (simp add: getSubmissions_def ensureDataDirectory_def readJSON_def split: storage.splits)

lemma getSubmissions_Stored:
  "submissions_store w = Stored xs \<Longrightarrow> getSubmissions E w = (xs, w)"
  by (simp add: getSubmissions_def ensureDataDirectory_def readJSON_def)

lemma saveSubmissions_fail:
  "\<not> fs_writable E \<Longrightarrow> fst (saveSubmissions E xs w) = False \<and>
     submissions_store (snd (saveSubmissions E xs w)) = submissions_store w \<and>
     products_store (snd (saveSubmissions E xs w)) = products_store w"
  by (simp add: saveSubmissions_def ensureDataDirectory_def writeJSON_def split: storage.splits)

lemma saveSubmissions_ok:
  "fs_writable E \<Longrightarrow>
   saveSubmissions E xs w =
     (True, w\<lparr>submissions_store := Stored xs, write_calls := Suc (write_calls w)\<rparr>)"
  by (simp add: saveSubmissions_def ensureDataDirectory_def writeJSON_def split: storage.splits)

lemma ensureDataDirectory_view:
  "stored_submissions (snd (ensureDataDirectory E w)) = stored_submissions w \<and>
   products_store (snd (ensureDataDirectory E w)) = products_store w \<and>
   write_calls (snd (ensureDataDirectory E w)) = write_calls w \<and>
   readJSON (submissions_store (snd (ensureDataDirectory E w))) = readJSON (submissions_store w)"
  by (simp add: ensureDataDirectory_def stored_submissions_def readJSON_def split: storage.splits)

lemma ensureDataDirectory_same:
  "submissions_store w \<noteq> DirMissing \<Longrightarrow> snd (ensureDataDirectory E w) = w"
  by (simp add: ensureDataDirectory_def split: storage.splits)

subsection \<open>The routes on their main paths\<close>

lemma maxId_within:
  "length ps \<le> max_arguments E \<Longrightarrow>
   maxId E ps = Some (if ps = [] then 0 else Max (set (map p_id ps)))"
proof (cases ps)
  case Nil
  then show ?thesis by (simp add: maxId_def)
next
  case (Cons p rest)
  assume "length ps \<le> max_arguments E"
  moreover have "Max (set (p_id p # map p_id rest)) = fold max (map p_id rest) (p_id p)"
    by (rule Max.set_eq_fold)
  ultimately show ?thesis
    by (simp add: maxId_def Cons)
qed

lemma maxId_beyond: "max_arguments E < length ps \<Longrightarrow> maxId E ps = None"
  by (cases ps) (simp_all add: maxId_def)

lemma errorHandler_new_RangeError:
  "errorHandler new_RangeError =
     (json 500 False)\<lparr>error := Some ''Maximum call stack size exceeded''\<rparr>"
  by (simp add: errorHandler_def new_RangeError_def)

lemma POST_products_valid:
  "create_checks L b = [] \<Longrightarrow> maxId E (getProductsData w) = Some m \<Longrightarrow>
   POST_products L E b w =
     ((json 201 True)\<lparr>message := Some ''Product created successfully'',
         data := Some (OneProduct (new_product L E b m))\<rparr>,
      snd (saveProductsData E (getProductsData w @ [new_product L E b m]) w))"
  by (simp add: POST_products_def handleValidationErrors_def Let_def case_prod_beta)

lemma POST_products_beyond:
  "create_checks L b = [] \<Longrightarrow> max_arguments E < length (getProductsData w) \<Longrightarrow>
   POST_products L E b w =
     ((json 500 False)\<lparr>error := Some ''Maximum call stack size exceeded''\<rparr>, w)"
  by (simp add: POST_products_def handleValidationErrors_def maxId_beyond
      errorHandler_new_RangeError)

lemma POST_products_invalid: "create_checks L b \<noteq> [] \<Longrightarrow> snd (POST_products L E b w) = w"
  by (simp add: POST_products_def handleValidationErrors_def)

lemma GET_product_found:
  "isNumeric idp \<Longrightarrow> find (id_matches idp) (getProductsData w) = Some p \<Longrightarrow>
   GET_product idp w = ((json 200 True)\<lparr>data := Some (OneProduct p)\<rparr>, w)"
  by (simp add: GET_product_def handleValidationErrors_def id_checks_def)

lemma GET_product_missing:
  "isNumeric idp \<Longrightarrow> find (id_matches idp) (getProductsData w) = None \<Longrightarrow>
   GET_product idp w = (not_found ''Product not found'', w)"
  by (simp add: GET_product_def handleValidationErrors_def id_checks_def)

lemma PUT_product_found:
  "update_checks idp u = [] \<Longrightarrow> findIndex (id_matches idp) (getProductsData w) = Some i \<Longrightarrow>
   PUT_product E idp u w =
     ((json 200 True)\<lparr>message := Some ''Product updated successfully'',
         data := Some (OneProduct (merge_product E (getProductsData w ! i) u))\<rparr>,
      snd (saveProductsData E
             ((getProductsData w)[i := merge_product E (getProductsData w ! i) u]) w))"
  by (simp add: PUT_product_def handleValidationErrors_def Let_def case_prod_beta)

lemma DELETE_product_found:
  "isNumeric idp \<Longrightarrow> findIndex (id_matches idp) (getProductsData w) = Some i \<Longrightarrow>
   DELETE_product E idp w =
     ((json 200 True)\<lparr>message := Some ''Product deleted successfully'',
         data := Some (OneProduct (getProductsData w ! i))\<rparr>,
      snd (saveProductsData E (splice1 i (getProductsData w)) w))"
  by (simp add: DELETE_product_def handleValidationErrors_def id_checks_def Let_def case_prod_beta)

lemma DELETE_product_missing:
  "isNumeric idp \<Longrightarrow> findIndex (id_matches idp) (getProductsData w) = None \<Longrightarrow>
   DELETE_product E idp w = (not_found ''Product not found'', w)"
  by (simp add: DELETE_product_def handleValidationErrors_def id_checks_def Let_def)

lemma DELETE_product_invalid:
  "\<not> isNumeric idp \<Longrightarrow>
   DELETE_product E idp w =
     ((json 400 False)\<lparr>errors := Some [(''id'', ''Product ID must be a number'')]\<rparr>, w)"
  by (simp add: DELETE_product_def handleValidationErrors_def id_checks_def)

lemma contact_checks_Nil_iff:
  "contact_checks L b = [] \<longleftrightarrow>
     firstName_checks b = [] \<and> lastName_checks b = [] \<and> email_checks L b = [] \<and>
     phone_checks b = [] \<and> subject_checks b = [] \<and> message_checks b = []"
  by (simp add: contact_checks_def)

lemma POST_contact_valid:
  "contact_checks L b = [] \<Longrightarrow>
   POST_contact L E b w =
     (if fst (saveSubmissions E (fst (getSubmissions E w) @ [new_submission L E b]) (snd (getSubmissions E w)))
      then (json 201 True)
             \<lparr>message := Some ''Thank you for your message! We will get back to you soon.'',
              data := Some (Receipt (s_id (new_submission L E b)) (s_createdAt (new_submission L E b)))\<rparr>
      else errorHandler (new_Error ''Failed to save submission''),
      snd (saveSubmissions E (fst (getSubmissions E w) @ [new_submission L E b]) (snd (getSubmissions E w))))"
  by (simp add: POST_contact_def handleValidationErrors_def Let_def case_prod_beta)

lemma errorHandler_new_Error:
  "errorHandler (new_Error (c # cs)) = (json 500 False)\<lparr>error := Some (c # cs)\<rparr>"
  by (simp add: errorHandler_def new_Error_def)

lemma GET_submissions_data:
  "\<exists>xs. fst (GET_submissions L E q w) =
          (json 200 True)\<lparr>count := Some (length xs), data := Some (Submissions xs)\<rparr> \<and>
        set xs = set (filter_if (sq_status q) (\<lambda>st s. s_status s = st) (stored_submissions w))"
proof -
  define cmp :: "submission \<Rightarrow> submission \<Rightarrow> jsnum" where "cmp =
     (if sq_sort q = Some (str ''oldest'')
      then (\<lambda>a b. js_sub (dateValue L (s_createdAt a)) (dateValue L (s_createdAt b)))
      else (\<lambda>a b. js_sub (dateValue L (s_createdAt b)) (dateValue L (s_createdAt a))))"
  let ?xs = "sort_js cmp (filter_if (sq_status q) (\<lambda>st s. s_status s = st) (stored_submissions w))"
  have "fst (GET_submissions L E q w) =
      (json 200 True)\<lparr>count := Some (length ?xs), data := Some (Submissions ?xs)\<rparr>"
    by (simp add: GET_submissions_def Let_def case_prod_beta getSubmissions_fst cmp_def)
  then show ?thesis
    by (intro exI [of _ ?xs]) (simp add: set_sort_js)
qed

lemma status_checks_Nil_iff:
  "status_checks st = [] \<longleftrightarrow>
     field_str st \<in> {str ''pending'', str ''read'', str ''responded'', str ''archived''}"
  by (simp add: status_checks_def isIn_def)

lemma PATCH_submission_invalid:
  "field_str st \<notin> {str ''pending'', str ''read'', str ''responded'', str ''archived''} \<Longrightarrow>
   PATCH_submission E sid st w =
     ((json 400 False)\<lparr>errors := Some [(''status'', ''Invalid status'')]\<rparr>, w)"
  by (simp add: PATCH_submission_def handleValidationErrors_def status_checks_def isIn_def)

lemma PATCH_submission_found:
  "status_checks st = [] \<Longrightarrow> findIndex (\<lambda>s. s_id s = idp) (fst (getSubmissions E w)) = Some i \<Longrightarrow>
   PATCH_submission E idp st w =
     ((json 200 True)\<lparr>message := Some ''Submission updated successfully'',
         data := Some (OneSubmission
           ((fst (getSubmissions E w))
              [i := (fst (getSubmissions E w) ! i)\<lparr>s_status := field_str st, s_updatedAt := Some (now E)\<rparr>] ! i))\<rparr>,
      snd (saveSubmissions E
             ((fst (getSubmissions E w))
                [i := (fst (getSubmissions E w) ! i)\<lparr>s_status := field_str st, s_updatedAt := Some (now E)\<rparr>])
             (snd (getSubmissions E w))))"
  by (simp add: PATCH_submission_def handleValidationErrors_def Let_def case_prod_beta)

lemma DELETE_submission_found:
  "findIndex (\<lambda>s. s_id s = idp) (fst (getSubmissions E w)) = Some i \<Longrightarrow>
   DELETE_submission E idp w =
     ((json 200 True)\<lparr>message := Some ''Submission deleted successfully'',
         data := Some (OneSubmission (fst (getSubmissions E w) ! i))\<rparr>,
      snd (saveSubmissions E (splice1 i (fst (getSubmissions E w))) (snd (getSubmissions E w))))"
  by (simp add: DELETE_submission_def Let_def case_prod_beta)

lemma DELETE_submission_missing:
  "findIndex (\<lambda>s. s_id s = idp) (fst (getSubmissions E w)) = None \<Longrightarrow>
   DELETE_submission E idp w = (not_found ''Submission not found'', snd (getSubmissions E w))"
  by (simp add: DELETE_submission_def Let_def case_prod_beta)

subsection \<open>Evaluation on the example inputs\<close>

lemmas str_defs = trim_def isWhiteSpace_def field_str_def notEmpty_def truthy_def isLength_def
  isIn_def str_def measuredLength_def presentationSequences_def isHighSurrogate_def
  isLowSurrogate_def

lemmas num_defs = parseFloat_def parseInt_def splitSign_def isDigit_def digitVal_def digitsValue_def
  radixVal_def isRadixDigit_def exponentPart_def isNumeric_def floatPattern_def isFloat_min0_def
  js_ge_def numberOfInt_def roundInt_def binaryScale_small binaryScale_step

lemma world_ann_products: "getProductsData world_ann = [soap]"
  by (simp add: getProductsData_def world_ann_def readJSON_def)

lemma world_ann_submissions: "stored_submissions world_ann = [sub_ann]"
  by (simp add: stored_submissions_def world_ann_def readJSON_def)

lemma world_ann_dir: "submissions_store world_ann \<noteq> DirMissing"
  by (simp add: world_ann_def)

lemma world_ann_stores:
  "products_store world_ann = Stored [soap] \<and> submissions_store world_ann = Stored [sub_ann]"
  by (simp add: world_ann_def)

lemma world_same_submissions: "stored_submissions world_same = [sub_same]"
  by (simp add: stored_submissions_def world_same_def readJSON_def)

lemma world_soap_products: "getProductsData world_soap = [soap]"
  by (simp add: getProductsData_def world_soap_def readJSON_def)

lemma world_two_products: "getProductsData world_two = [soap, bleach]"
  by (simp add: getProductsData_def world_two_def readJSON_def)

lemma world_big_products: "getProductsData world_big = [product_big]"
  by (simp add: getProductsData_def world_big_def readJSON_def)

lemma world_empty_products: "products_store world_empty = Stored []"
  by (simp add: world_empty_def)

lemma world_empty_submissions: "stored_submissions world_empty = []"
  by (simp add: stored_submissions_def world_empty_def readJSON_def)

lemma env_fail_fields: "\<not> fs_writable env_fail \<and> max_arguments env_fail = 100000"
  by (simp add: env_fail_def env_ok_def)

lemma env_ok_fields:
  "fs_writable env_ok \<and> uuid env_ok = str ''3f2b8c1e-0000-4000-8000-000000000001'' \<and>
   now env_ok = str ''2024-05-01T10:00:00.000Z'' \<and> max_arguments env_ok = 100000"
  by (simp add: env_ok_def)

lemma soap_id: "p_id soap = 2"
  by (simp add: soap_def)

lemma bleach_id: "p_id bleach = 5"
  by (simp add: bleach_def)

lemma product_big_id: "p_id product_big = 9007199254740992"
  by (simp add: product_big_def)

lemma sub_ann_id: "s_id sub_ann = str ''a1''"
  by (simp add: sub_ann_def)

lemma sub_same_id: "s_id sub_same = str ''3f2b8c1e-0000-4000-8000-000000000001''"
  by (simp add: sub_same_def)

lemma numeric_7: "isNumeric (str ''7'') \<and> parseInt (str ''7'') = Fin 7"
  by (simp add: num_defs str_defs)

lemma numeric_2: "isNumeric (str ''2'') \<and> parseInt (str ''2'') = Fin 2"
  by (simp add: num_defs str_defs)

lemma id_2_5:
  "isNumeric (str ''2.5'') \<and> hasIntegerPart (str ''2.5'') \<and>
   truncation (numericValue (str ''2.5'')) = 2 \<and> parseInt (str ''2.5'') = Fin 2"
  by (simp add: num_defs str_defs hasIntegerPart_def numericValue_def truncation_def floor_eq_iff)

lemma value_2_5: "numericValue (str ''2.5'') = 5 / 2"
  by (simp add: num_defs str_defs numericValue_def)

lemma id_point_5:
  "isNumeric (str ''.5'') \<and> truncation (numericValue (str ''.5'')) = 0 \<and>
   parseInt (str ''.5'') = NaN"
  by (simp add: num_defs str_defs hasIntegerPart_def numericValue_def truncation_def floor_eq_iff)

lemma id_abc: "\<not> isNumeric (str ''abc'')"
  by (simp add: num_defs str_defs)

lemma id_big:
  "isNumeric (str ''9007199254740993'') \<and> hasIntegerPart (str ''9007199254740993'') \<and>
   truncation (numericValue (str ''9007199254740993'')) = 9007199254740993 \<and>
   parseInt (str ''9007199254740993'') = Fin 9007199254740992"
  by (simp add: num_defs str_defs hasIntegerPart_def numericValue_def truncation_def)

lemma parseFloat_abc: "parseFloat lib0 (str ''abc'') = NaN"
  by (simp add: num_defs str_defs)

lemma parseFloat_empty: "parseFloat lib0 [] = NaN"
  by (simp add: num_defs str_defs)

lemma toLowerCase_SANITIZERS: "toLowerCase lib0 (str ''SANITIZERS'') = str ''sanitizers''"
  by (simp add: lib0_def lowerASCII_def str_def)

lemma create_checks_body_new: "create_checks lib0 body_new = []"
  by (simp add: create_checks_def required_def body_new_def str_defs num_defs lib0_def)

lemma update_checks_patch_price: "update_checks (str ''2'') patch_price = []"
  by (simp add: update_checks_def id_checks_def patch_price_def numeric_2)

lemma update_checks_2_5: "update_checks (str ''2.5'') patch_price = []"
  by (simp add: update_checks_def id_checks_def patch_price_def id_2_5)

lemma contact_checks_jo: "contact_checks lib0 contact_jo = []"
  by (simp add: contact_checks_def firstName_checks_def lastName_checks_def email_checks_def
      phone_checks_def subject_checks_def message_checks_def contact_jo_def lib0_def str_defs
      surrogatePairs.simps)

lemma status_checks_read: "status_checks (Some (str ''read'')) = []"
  by (simp add: status_checks_def field_str_def isIn_def)

lemma contact_jo_other_checks:
  "firstName_checks (contact_jo\<lparr>c_message := m\<rparr>) = [] \<and>
   lastName_checks (contact_jo\<lparr>c_message := m\<rparr>) = [] \<and>
   email_checks lib0 (contact_jo\<lparr>c_message := m\<rparr>) = [] \<and>
   phone_checks (contact_jo\<lparr>c_message := m\<rparr>) = [] \<and>
   subject_checks (contact_jo\<lparr>c_message := m\<rparr>) = []"
  by (simp add: firstName_checks_def lastName_checks_def email_checks_def
      phone_checks_def subject_checks_def contact_jo_def lib0_def str_defs)

lemma contact_nine_length: "measuredLength (trim (field_str (c_message contact_nine))) = 9"
  by (simp add: contact_nine_def str_defs)

lemma contact_ten_length: "measuredLength (trim (field_str (c_message contact_ten))) = 10"
  by (simp add: contact_ten_def str_defs)

subsection \<open>A failed write of the collection\<close>

text \<open>
  C1. What the routes answer when the write of the collection fails
  (\<^verbatim>\<open>saveProductsData\<close> or \<^verbatim>\<open>saveSubmissions\<close> returns false). Only
  \<^verbatim>\<open>POST /api/contact\<close> checks the flag and answers 500 with \<open>success = False\<close>.
  Product create, update and delete and submission status update and delete drop the
  flag: they answer 201 or 200 with \<open>success = True\<close> although the stored collection is
  the one from before the request. (A create request reaches its write when the catalog
  fits in one spread call; when it does not, the request is answered 500 before any write
  and the state is untouched.)
\<close>

theorem write_failure_answered_as_success:
  "\<not> fs_writable E \<Longrightarrow>
   (create_checks L b = [] \<and> length (getProductsData w) \<le> max_arguments E \<longrightarrow>
      status (fst (POST_products L E b w)) = 201 \<and> success (fst (POST_products L E b w)) \<and>
      products_store (snd (POST_products L E b w)) = products_store w) \<and>
   (create_checks L b = [] \<and> max_arguments E < length (getProductsData w) \<longrightarrow>
      status (fst (POST_products L E b w)) = 500 \<and> \<not> success (fst (POST_products L E b w)) \<and>
      snd (POST_products L E b w) = w) \<and>
   (update_checks idp u = [] \<and>
    parseInt idp \<in> set (map (\<lambda>p. Fin (of_int (p_id p))) (getProductsData w)) \<longrightarrow>
      status (fst (PUT_product E idp u w)) = 200 \<and> success (fst (PUT_product E idp u w)) \<and>
      products_store (snd (PUT_product E idp u w)) = products_store w) \<and>
   (isNumeric idp \<and>
    parseInt idp \<in> set (map (\<lambda>p. Fin (of_int (p_id p))) (getProductsData w)) \<longrightarrow>
      status (fst (DELETE_product E idp w)) = 200 \<and> success (fst (DELETE_product E idp w)) \<and>
      products_store (snd (DELETE_product E idp w)) = products_store w) \<and>
   (status_checks st = [] \<and> sid \<in> set (map s_id (stored_submissions w)) \<longrightarrow>
      status (fst (PATCH_submission E sid st w)) = 200 \<and>
      success (fst (PATCH_submission E sid st w)) \<and>
      submissions_store (snd (PATCH_submission E sid st w)) = submissions_store w) \<and>
   (sid \<in> set (map s_id (stored_submissions w)) \<longrightarrow>
      status (fst (DELETE_submission E sid w)) = 200 \<and>
      success (fst (DELETE_submission E sid w)) \<and>
      submissions_store (snd (DELETE_submission E sid w)) = submissions_store w) \<and>
   (contact_checks L c = [] \<longrightarrow>
      fst (POST_contact L E c w) = (json 500 False)\<lparr>error := Some ''Failed to save submission''\<rparr> \<and>
      stored_submissions (snd (POST_contact L E c w)) = stored_submissions w)"
proof -
  assume nw: "\<not> fs_writable E"
  have found_p: "\<exists>i. findIndex (id_matches idp) (getProductsData w) = Some i"
    if "parseInt idp \<in> set (map (\<lambda>p. Fin (of_int (p_id p))) (getProductsData w))"
  proof -
    from that obtain p where "p \<in> set (getProductsData w)" "id_matches idp p"
      by (auto simp: id_matches_def)
    then show ?thesis by (rule findIndex_ex)
  qed
  have found_s: "\<exists>i. findIndex (\<lambda>s. s_id s = sid) (fst (getSubmissions E w)) = Some i"
    if "sid \<in> set (map s_id (stored_submissions w))"
  proof -
    from that obtain s where "s \<in> set (fst (getSubmissions E w))" "s_id s = sid"
      by (auto simp: getSubmissions_fst)
    then show ?thesis by (rule findIndex_ex)
  qed
  have dir: "snd (getSubmissions E w) = w" if "sid \<in> set (map s_id (stored_submissions w))"
  proof -
    from that have "submissions_store w \<noteq> DirMissing"
      by (auto simp: stored_submissions_def readJSON_def)
    then show ?thesis by (simp add: getSubmissions_snd ensureDataDirectory_same)
  qed
  have c1: "status (fst (POST_products L E b w)) = 201 \<and> success (fst (POST_products L E b w)) \<and>
      products_store (snd (POST_products L E b w)) = products_store w"
    if "create_checks L b = []" "length (getProductsData w) \<le> max_arguments E"
    using nw
    by (simp add: POST_products_valid [OF that(1) maxId_within [OF that(2)]]
        saveProductsData_fail_store json_def)
  have c1': "status (fst (POST_products L E b w)) = 500 \<and> \<not> success (fst (POST_products L E b w)) \<and>
      snd (POST_products L E b w) = w"
    if "create_checks L b = []" "max_arguments E < length (getProductsData w)"
    by (simp add: POST_products_beyond [OF that] json_def)
  have c2: "status (fst (PUT_product E idp u w)) = 200 \<and> success (fst (PUT_product E idp u w)) \<and>
      products_store (snd (PUT_product E idp u w)) = products_store w"
    if "update_checks idp u = []"
      "parseInt idp \<in> set (map (\<lambda>p. Fin (of_int (p_id p))) (getProductsData w))"
    using found_p [OF that(2)] that(1) nw
    by (auto simp: PUT_product_found saveProductsData_fail_store json_def)
  have c3: "status (fst (DELETE_product E idp w)) = 200 \<and> success (fst (DELETE_product E idp w)) \<and>
      products_store (snd (DELETE_product E idp w)) = products_store w"
    if "isNumeric idp"
      "parseInt idp \<in> set (map (\<lambda>p. Fin (of_int (p_id p))) (getProductsData w))"
    using found_p [OF that(2)] that(1) nw
    by (auto simp: DELETE_product_found saveProductsData_fail_store json_def)
  have c4: "status (fst (PATCH_submission E sid st w)) = 200 \<and>
      success (fst (PATCH_submission E sid st w)) \<and>
      submissions_store (snd (PATCH_submission E sid st w)) = submissions_store w"
    if "status_checks st = []" "sid \<in> set (map s_id (stored_submissions w))"
    using found_s [OF that(2)] that(1) nw dir [OF that(2)] saveSubmissions_fail [of E _ w]
    by (auto simp: PATCH_submission_found json_def)
  have c5: "status (fst (DELETE_submission E sid w)) = 200 \<and>
      success (fst (DELETE_submission E sid w)) \<and>
      submissions_store (snd (DELETE_submission E sid w)) = submissions_store w"
    if "sid \<in> set (map s_id (stored_submissions w))"
    using found_s [OF that] nw dir [OF that] saveSubmissions_fail [of E _ w]
    by (auto simp: DELETE_submission_found json_def)
  have c6: "fst (POST_contact L E c w) = (json 500 False)\<lparr>error := Some ''Failed to save submission''\<rparr> \<and>
      stored_submissions (snd (POST_contact L E c w)) = stored_submissions w"
    if "contact_checks L c = []"
    using that nw saveSubmissions_fail [of E _ "snd (getSubmissions E w)"]
      ensureDataDirectory_view [of E w]
    by (simp add: POST_contact_valid errorHandler_new_Error getSubmissions_snd stored_submissions_def)
  show ?thesis using c1 c1' c2 c3 c4 c5 c6 by blast
qed

theorem write_failure_witness:
  "\<not> fs_writable env_fail \<and>
   create_checks lib0 body_new = [] \<and>
   length (getProductsData world_ann) \<le> max_arguments env_fail \<and>
   success (fst (POST_products lib0 env_fail body_new world_ann)) \<and>
   products_store (snd (POST_products lib0 env_fail body_new world_ann)) = Stored [soap] \<and>
   update_checks (str ''2'') patch_price = [] \<and>
   success (fst (PUT_product env_fail (str ''2'') patch_price world_ann)) \<and>
   products_store (snd (PUT_product env_fail (str ''2'') patch_price world_ann)) = Stored [soap] \<and>
   success (fst (DELETE_product env_fail (str ''2'') world_ann)) \<and>
   products_store (snd (DELETE_product env_fail (str ''2'') world_ann)) = Stored [soap] \<and>
   status_checks (Some (str ''read'')) = [] \<and>
   success (fst (PATCH_submission env_fail (str ''a1'') (Some (str ''read'')) world_ann)) \<and>
   submissions_store (snd (PATCH_submission env_fail (str ''a1'') (Some (str ''read'')) world_ann)) =
     Stored [sub_ann] \<and>
   success (fst (DELETE_submission env_fail (str ''a1'') world_ann)) \<and>
   submissions_store (snd (DELETE_submission env_fail (str ''a1'') world_ann)) = Stored [sub_ann] \<and>
   contact_checks lib0 contact_jo = [] \<and>
   \<not> success (fst (POST_contact lib0 env_fail contact_jo world_ann))"
  using write_failure_answered_as_success
    [of env_fail lib0 body_new world_ann "str ''2''" patch_price "Some (str ''read'')" "str ''a1''"
      contact_jo]
  by (simp add: create_checks_body_new update_checks_patch_price status_checks_read
      contact_checks_jo numeric_2 world_ann_products world_ann_submissions world_ann_stores
      env_fail_fields soap_id sub_ann_id json_def)

subsection \<open>Identifiers of created products\<close>

lemma new_product_id: "p_id (new_product L E b m) = roundInt (m + 1)"
  by (simp add: new_product_def)

lemma Max_ids_bound:
  assumes "ps \<noteq> []" "\<forall>p \<in> set ps. \<bar>p_id p\<bar> < 2 ^ 53"
  shows "\<bar>Max (set (map p_id ps))\<bar> < 2 ^ 53"
proof -
  have "Max (set (map p_id ps)) \<in> set (map p_id ps)"
    using assms(1) by (intro Max_in) simp_all
  with assms(2) show ?thesis by auto
qed

lemma next_id_fresh:
  assumes "\<forall>p \<in> set ps. \<bar>p_id p\<bar> < 2 ^ 53"
  shows "roundInt ((if ps = [] then 0 else Max (set (map p_id ps))) + 1) =
           (if ps = [] then 0 else Max (set (map p_id ps))) + 1 \<and>
         (if ps = [] then 0 else Max (set (map p_id ps))) + 1 \<notin> set (map p_id ps)"
proof (cases "ps = []")
  case True
  then show ?thesis by (simp add: roundInt_below)
next
  case False
  let ?M = "Max (set (map p_id ps))"
  from Max_ids_bound [OF False assms] have "\<bar>?M + 1\<bar> \<le> 2 ^ 53"
    by linarith
  then have "roundInt (?M + 1) = ?M + 1"
    by (rule roundInt_safe)
  moreover have "?M + 1 \<notin> set (map p_id ps)"
  proof
    assume "?M + 1 \<in> set (map p_id ps)"
    then have "?M + 1 \<le> ?M"
      by (intro Max_ge) simp_all
    then show False by simp
  qed
  ultimately show ?thesis
    using False by simp
qed

lemma POST_products_distinct:
  assumes "distinct (map p_id (getProductsData w))"
    "\<forall>p \<in> set (getProductsData w). \<bar>p_id p\<bar> < 2 ^ 53"
  shows "distinct (map p_id (getProductsData (snd (POST_products L E b w))))"
proof (cases "create_checks L b = []")
  case False
  with assms(1) show ?thesis by (simp add: POST_products_invalid)
next
  case True
  let ?ps = "getProductsData w"
  show ?thesis
  proof (cases "length ?ps \<le> max_arguments E")
    case False
    then have "max_arguments E < length ?ps" by simp
    from POST_products_beyond [OF True this] assms(1) show ?thesis by simp
  next
    case within: True
    let ?m = "if ?ps = [] then 0 else Max (set (map p_id ?ps))"
    let ?new = "new_product L E b ?m"
    have r: "roundInt (?m + 1) = ?m + 1"
      using next_id_fresh [OF assms(2)] by (rule conjunct1)
    have "?m + 1 \<notin> set (map p_id ?ps)"
      using next_id_fresh [OF assms(2)] by (rule conjunct2)
    then have "p_id ?new \<notin> set (map p_id ?ps)"
      by (simp add: new_product_id r)
    with assms(1) have "distinct (map p_id (?ps @ [?new]))"
      by simp
    with assms(1) getProductsData_save [of E "?ps @ [?new]" w] show ?thesis
      by (auto simp: POST_products_valid [OF True maxId_within [OF within]])
  qed
qed

lemma maxId_upto:
  "map p_id ps = map int [1..<Suc k] \<Longrightarrow> k \<le> max_arguments E \<Longrightarrow> maxId E ps = Some (int k)"
proof (cases k)
  case 0
  assume "map p_id ps = map int [1..<Suc k]"
  with 0 show ?thesis by (simp add: maxId_def)
next
  case (Suc j)
  assume ids: "map p_id ps = map int [1..<Suc k]" and lim: "k \<le> max_arguments E"
  with Suc have ne: "ps \<noteq> []" by auto
  have "length (map p_id ps) = length (map int [1..<Suc k])"
    by (simp only: ids)
  then have len: "length ps = k" by simp
  have "Max (int ` {1..<Suc k}) = int k"
  proof (rule Max_eqI)
    show "finite (int ` {1..<Suc k})" by simp
    show "y \<le> int k" if "y \<in> int ` {1..<Suc k}" for y
      using that by auto
    show "int k \<in> int ` {1..<Suc k}"
      using Suc by (intro imageI) simp
  qed
  moreover have "set (map p_id ps) = int ` {1..<Suc k}"
    by (simp only: ids set_map set_upt)
  ultimately have "Max (set (map p_id ps)) = int k"
    by (simp only:)
  moreover have "maxId E ps = Some (if ps = [] then 0 else Max (set (map p_id ps)))"
    by (rule maxId_within) (simp add: len lim)
  ultimately show ?thesis
    using ne by simp
qed

lemma POST_products_next:
  assumes "products_store w = Stored ps" "map p_id ps = map int [1..<Suc k]"
    "fs_writable E" "create_checks L b = []" "k \<le> max_arguments E" "k < 2 ^ 53"
  shows "created_id (fst (POST_products L E b w)) = Some (int (Suc k)) \<and>
     (\<exists>ps'. products_store (snd (POST_products L E b w)) = Stored ps' \<and>
            map p_id ps' = map int [1..<Suc (Suc k)])"
proof -
  have g: "getProductsData w = ps"
    using assms(1) by (simp add: getProductsData_def readJSON_def)
  have nd: "products_store w \<noteq> DirMissing"
    using assms(1) by simp
  have m: "maxId E (getProductsData w) = Some (int k)"
    unfolding g by (rule maxId_upto [OF assms(2,5)])
  have "int k < int (2 ^ 53)"
    using assms(6) by (simp only: of_nat_less_iff)
  then have "int k < 2 ^ 53"
    by simp
  then have "\<bar>int k + 1\<bar> \<le> 2 ^ 53"
    by simp
  then have "roundInt (int k + 1) = int k + 1"
    by (rule roundInt_safe)
  then have idn: "p_id (new_product L E b (int k)) = int (Suc k)"
    by (simp add: new_product_id)
  show ?thesis
    using assms(2) idn
    by (simp add: POST_products_valid [OF assms(4) m] g saveProductsData_ok [OF assms(3) nd]
        created_id_def)
qed

lemma create_all_ids:
  "products_store w = Stored ps \<Longrightarrow> map p_id ps = map int [1..<Suc k] \<Longrightarrow>
   list_all (\<lambda>(E, b). fs_writable E \<and> create_checks L b = [] \<and> n \<le> max_arguments E) reqs \<Longrightarrow>
   k + length reqs \<le> n \<Longrightarrow> n \<le> 2 ^ 53 \<Longrightarrow>
   map created_id (fst (create_all L reqs w)) =
     map (\<lambda>j. Some (int j)) [Suc k..<Suc (k + length reqs)] \<and>
   (\<exists>ps'. products_store (snd (create_all L reqs w)) = Stored ps' \<and>
          map p_id ps' = map int [1..<Suc (k + length reqs)])"
proof (induction reqs arbitrary: w ps k)
  case Nil
  then show ?case by simp
next
  case (Cons req reqs)
  obtain E b where req: "req = (E, b)" by (cases req)
  from Cons.prems(3) req have ok: "fs_writable E" "create_checks L b = []"
    and lim: "n \<le> max_arguments E"
    and rest: "list_all (\<lambda>(E, b). fs_writable E \<and> create_checks L b = [] \<and> n \<le> max_arguments E) reqs"
    by simp_all
  from Cons.prems(4) have kn: "k < n" and tailn: "Suc k + length reqs \<le> n"
    by simp_all
  from kn lim have klim: "k \<le> max_arguments E" by simp
  from kn Cons.prems(5) have ksafe: "k < 2 ^ 53" by simp
  from POST_products_next [OF Cons.prems(1,2) ok klim ksafe]
  obtain ps' where first: "created_id (fst (POST_products L E b w)) = Some (int (Suc k))"
    and st: "products_store (snd (POST_products L E b w)) = Stored ps'"
    and ids: "map p_id ps' = map int [1..<Suc (Suc k)]"
    by blast
  from Cons.IH [OF st ids rest tailn Cons.prems(5)]
  have tail: "map created_id (fst (create_all L reqs (snd (POST_products L E b w)))) =
       map (\<lambda>j. Some (int j)) [Suc (Suc k)..<Suc (Suc k + length reqs)]"
    and fin: "\<exists>ps''. products_store (snd (create_all L reqs (snd (POST_products L E b w)))) = Stored ps'' \<and>
          map p_id ps'' = map int [1..<Suc (Suc k + length reqs)]"
    by simp_all
  have resp: "fst (create_all L (req # reqs) w) =
      fst (POST_products L E b w) # fst (create_all L reqs (snd (POST_products L E b w)))"
    by (simp add: req case_prod_beta Let_def)
  have final: "snd (create_all L (req # reqs) w) =
      snd (create_all L reqs (snd (POST_products L E b w)))"
    by (simp add: req case_prod_beta Let_def)
  have len: "Suc (k + length (req # reqs)) = Suc (Suc k + length reqs)"
    by simp
  have range: "[Suc k..<Suc (Suc k + length reqs)] =
      Suc k # [Suc (Suc k)..<Suc (Suc k + length reqs)]"
    by (rule upt_conv_Cons) simp
  have "map created_id (fst (create_all L (req # reqs) w)) =
      map (\<lambda>j. Some (int j)) [Suc k..<Suc (k + length (req # reqs))]"
    unfolding resp len range using first tail by (simp del: upt_Suc)
  moreover have "\<exists>ps'. products_store (snd (create_all L (req # reqs) w)) = Stored ps' \<and>
      map p_id ps' = map int [1..<Suc (k + length (req # reqs))]"
    unfolding final len using fin .
  ultimately show ?case by blast
qed

text \<open>
  C2, as amended. The id of a created product is \<^verbatim>\<open>maxId + 1\<close> computed in doubles. A
  create request that passes validation on a catalog that fits in one spread call answers
  with a product whose id is the double nearest to the largest stored id plus one (to 1
  when nothing is stored); when every stored id is below \<open>2^53\<close> in magnitude that is the
  largest stored id plus one exactly, an id no stored product has, and every create
  request, whatever its outcome, then keeps the ids of the stored products pairwise
  distinct. A valid create request on a catalog too large for the spread call is answered
  500 and stores nothing. Starting from an empty catalog, \<open>N\<close> successive valid create
  requests whose writes succeed, with \<open>N\<close> within the argument limit and at most \<open>2^53\<close>,
  answer with the ids \<open>1, ..., N\<close> in order, and the stored products then have exactly the
  ids \<open>1, ..., N\<close>, without duplicates.
\<close>

theorem create_assigns_next_id:
  "(create_checks L b = [] \<and> length (getProductsData w) \<le> max_arguments E \<longrightarrow>
      created_id (fst (POST_products L E b w)) =
        Some (roundInt
          ((if getProductsData w = [] then 0 else Max (set (map p_id (getProductsData w)))) + 1))) \<and>
   (create_checks L b = [] \<and> length (getProductsData w) \<le> max_arguments E \<and>
    (\<forall>p \<in> set (getProductsData w). \<bar>p_id p\<bar> < 2 ^ 53) \<longrightarrow>
      created_id (fst (POST_products L E b w)) =
        Some ((if getProductsData w = [] then 0 else Max (set (map p_id (getProductsData w)))) + 1) \<and>
      created_id (fst (POST_products L E b w)) \<notin> set (map (\<lambda>p. Some (p_id p)) (getProductsData w))) \<and>
   (create_checks L b = [] \<and> max_arguments E < length (getProductsData w) \<longrightarrow>
      POST_products L E b w =
        ((json 500 False)\<lparr>error := Some ''Maximum call stack size exceeded''\<rparr>, w)) \<and>
   (distinct (map p_id (getProductsData w)) \<and>
    (\<forall>p \<in> set (getProductsData w). \<bar>p_id p\<bar> < 2 ^ 53) \<longrightarrow>
      distinct (map p_id (getProductsData (snd (POST_products L E b w))))) \<and>
   (products_store w = Stored [] \<and> length reqs \<le> 2 ^ 53 \<and>
    list_all (\<lambda>(E, b). fs_writable E \<and> create_checks L b = [] \<and> length reqs \<le> max_arguments E)
      reqs \<longrightarrow>
      map created_id (fst (create_all L reqs w)) =
        map (\<lambda>j. Some (int j)) [1..<Suc (length reqs)] \<and>
      map p_id (getProductsData (snd (create_all L reqs w))) = map int [1..<Suc (length reqs)] \<and>
      distinct (map p_id (getProductsData (snd (create_all L reqs w)))))"
proof -
  let ?ps = "getProductsData w"
  let ?M = "(if ?ps = [] then 0 else Max (set (map p_id ?ps)))"
  have cid: "created_id (fst (POST_products L E b w)) = Some (roundInt (?M + 1))"
    if valid: "create_checks L b = []" and within: "length ?ps \<le> max_arguments E"
    by (simp add: POST_products_valid [OF valid maxId_within [OF within]] created_id_def
        new_product_id)
  have one: "created_id (fst (POST_products L E b w)) = Some (?M + 1) \<and>
      created_id (fst (POST_products L E b w)) \<notin> set (map (\<lambda>p. Some (p_id p)) ?ps)"
    if valid: "create_checks L b = []" and within: "length ?ps \<le> max_arguments E"
      and safe: "\<forall>p \<in> set ?ps. \<bar>p_id p\<bar> < 2 ^ 53"
  proof -
    have r: "roundInt (?M + 1) = ?M + 1"
      using next_id_fresh [OF safe] by (rule conjunct1)
    have f: "?M + 1 \<notin> set (map p_id ?ps)"
      using next_id_fresh [OF safe] by (rule conjunct2)
    from f have "Some (?M + 1) \<notin> set (map (\<lambda>p. Some (p_id p)) ?ps)"
      by auto
    with cid [OF valid within] r show ?thesis
      by simp
  qed
  have many: "map created_id (fst (create_all L reqs w)) =
        map (\<lambda>j. Some (int j)) [1..<Suc (length reqs)] \<and>
      map p_id (getProductsData (snd (create_all L reqs w))) = map int [1..<Suc (length reqs)] \<and>
      distinct (map p_id (getProductsData (snd (create_all L reqs w))))"
    if empty: "products_store w = Stored []" and safe: "length reqs \<le> 2 ^ 53"
      and ok: "list_all (\<lambda>(E, b). fs_writable E \<and> create_checks L b = [] \<and>
                 length reqs \<le> max_arguments E) reqs"
  proof -
    have start: "map p_id [] = map int [1..<Suc 0]" by simp
    have len: "0 + length reqs \<le> length reqs" by simp
    from create_all_ids [OF empty start ok len safe]
    obtain ps' where resp: "map created_id (fst (create_all L reqs w)) =
        map (\<lambda>j. Some (int j)) [Suc 0..<Suc (0 + length reqs)]"
      and st: "products_store (snd (create_all L reqs w)) = Stored ps'"
      and ids: "map p_id ps' = map int [1..<Suc (0 + length reqs)]"
      by blast
    from st have g: "getProductsData (snd (create_all L reqs w)) = ps'"
      by (simp add: getProductsData_def readJSON_def)
    have "distinct (map int [1..<Suc (length reqs)])"
      by (simp only: distinct_map distinct_upt) (simp add: inj_on_def)
    with resp ids show ?thesis
      by (simp add: g del: upt_Suc)
  qed
  have p1: "create_checks L b = [] \<and> length ?ps \<le> max_arguments E \<longrightarrow>
      created_id (fst (POST_products L E b w)) = Some (roundInt (?M + 1))"
    using cid by blast
  have p2: "create_checks L b = [] \<and> length ?ps \<le> max_arguments E \<and>
      (\<forall>p \<in> set ?ps. \<bar>p_id p\<bar> < 2 ^ 53) \<longrightarrow>
      created_id (fst (POST_products L E b w)) = Some (?M + 1) \<and>
      created_id (fst (POST_products L E b w)) \<notin> set (map (\<lambda>p. Some (p_id p)) ?ps)"
    using one by blast
  have p3: "create_checks L b = [] \<and> max_arguments E < length ?ps \<longrightarrow>
      POST_products L E b w =
        ((json 500 False)\<lparr>error := Some ''Maximum call stack size exceeded''\<rparr>, w)"
    using POST_products_beyond [of L b E w] by blast
  have p4: "distinct (map p_id ?ps) \<and> (\<forall>p \<in> set ?ps. \<bar>p_id p\<bar> < 2 ^ 53) \<longrightarrow>
      distinct (map p_id (getProductsData (snd (POST_products L E b w))))"
    using POST_products_distinct [of w L E b] by blast
  have p5: "products_store w = Stored [] \<and> length reqs \<le> 2 ^ 53 \<and>
      list_all (\<lambda>(E, b). fs_writable E \<and> create_checks L b = [] \<and> length reqs \<le> max_arguments E)
        reqs \<longrightarrow>
      map created_id (fst (create_all L reqs w)) =
        map (\<lambda>j. Some (int j)) [1..<Suc (length reqs)] \<and>
      map p_id (getProductsData (snd (create_all L reqs w))) = map int [1..<Suc (length reqs)] \<and>
      distinct (map p_id (getProductsData (snd (create_all L reqs w))))"
    using many by blast
  show ?thesis
    by (rule conjI [OF p1 conjI [OF p2 conjI [OF p3 conjI [OF p4 p5]]]])
qed

theorem create_assigns_next_id_witness:
  "products_store world_empty = Stored [] \<and>
   list_all (\<lambda>(E, b). fs_writable E \<and> create_checks lib0 b = [] \<and>
               length [(env_ok, body_new), (env_ok, body_new), (env_ok, body_new)] \<le> max_arguments E)
     [(env_ok, body_new), (env_ok, body_new), (env_ok, body_new)] \<and>
   map created_id
     (fst (create_all lib0 [(env_ok, body_new), (env_ok, body_new), (env_ok, body_new)] world_empty)) =
     [Some 1, Some 2, Some 3] \<and>
   map p_id (getProductsData
     (snd (create_all lib0 [(env_ok, body_new), (env_ok, body_new), (env_ok, body_new)] world_empty))) =
     [1, 2, 3] \<and>
   create_checks lib0 body_new = [] \<and>
   length (getProductsData world_two) \<le> max_arguments env_ok \<and>
   list_all (\<lambda>p. \<bar>p_id p\<bar> < 2 ^ 53) (getProductsData world_two) \<and>
   created_id (fst (POST_products lib0 env_ok body_new world_two)) = Some 6 \<and>
   distinct (map p_id (getProductsData world_two)) \<and>
   distinct (map p_id (getProductsData (snd (POST_products lib0 env_ok body_new world_two))))"
  using create_assigns_next_id
    [of lib0 body_new world_empty env_ok "[(env_ok, body_new), (env_ok, body_new), (env_ok, body_new)]"]
    create_assigns_next_id [of lib0 body_new world_two env_ok "[]"]
  by (simp add: world_empty_products create_checks_body_new env_ok_fields getProductsData_def
      readJSON_def world_two_products [unfolded getProductsData_def readJSON_def]
      soap_def bleach_def roundInt_below)

text \<open>
  With a stored product whose id is \<open>2^53\<close>, \<^verbatim>\<open>maxId + 1\<close> is \<open>2^53\<close> again: the created
  product gets the id of the stored one, which is not the largest id plus one, and the
  stored ids are no longer pairwise distinct.
\<close>

theorem create_repeats_id_counterexample:
  "create_checks lib0 body_new = [] \<and>
   map p_id (getProductsData world_big) = [9007199254740992] \<and>
   status (fst (POST_products lib0 env_ok body_new world_big)) = 201 \<and>
   created_id (fst (POST_products lib0 env_ok body_new world_big)) = Some 9007199254740992 \<and>
   map p_id (getProductsData (snd (POST_products lib0 env_ok body_new world_big))) =
     [9007199254740992, 9007199254740992]"
proof -
  have m: "maxId env_ok (getProductsData world_big) = Some 9007199254740992"
    by (simp add: world_big_products maxId_def env_ok_fields product_big_id)
  have r: "roundInt 9007199254740993 = 9007199254740992"
    by (simp add: roundInt_def binaryScale_small binaryScale_step)
  have ne: "getProductsData world_big \<noteq> []"
    by (simp add: world_big_products)
  have wr: "fs_writable env_ok"
    by (simp add: env_ok_fields)
  show ?thesis
    by (simp add: POST_products_valid [OF create_checks_body_new m] create_checks_body_new
        getProductsData_saved [OF wr ne] world_big_products product_big_id created_id_def
        new_product_id r json_def)
qed

subsection \<open>Listing with a category filter\<close>

text \<open>
  C3, as amended. \<^verbatim>\<open>GET /api/products\<close> always answers 200 with items taken from the
  catalog and with \<^verbatim>\<open>categories\<close> the distinct category names of the whole catalog,
  whatever filters are given; and for every non-empty category filter value \<open>X\<close> every
  item's category equals \<open>X\<close> up to letter case, that is, the two have the same
  \<^verbatim>\<open>toLowerCase()\<close>, whatever that library function does to a string.
\<close>

theorem listing_category_filter:
  "\<exists>ps cs.
     GET_products L q w =
       ((json 200 True)\<lparr>count := Some (length ps), categories := Some cs,
           data := Some (Products ps)\<rparr>, w) \<and>
     set cs = set (map p_category (getProductsData w)) \<and> distinct cs \<and>
     set ps \<subseteq> set (getProductsData w) \<and>
     (\<forall>X. q_category q = Some X \<and> X \<noteq> [] \<longrightarrow>
        (\<forall>p \<in> set ps. toLowerCase L (p_category p) = toLowerCase L X))"
proof -
  let ?all = "getProductsData w"
  let ?f1 = "filter_if (q_category q)
            (\<lambda>category p. toLowerCase L (p_category p) = toLowerCase L category) ?all"
  let ?f2 = "filter_if (q_search q)
            (\<lambda>search p. str_includes (toLowerCase L (p_name p)) (toLowerCase L search) \<or>
                         str_includes (toLowerCase L (p_description p)) (toLowerCase L search)) ?f1"
  let ?f3 = "filter_if (q_minPrice q)
            (\<lambda>minPrice p. js_ge (p_price p) (parseFloat L minPrice)) ?f2"
  let ?f4 = "filter_if (q_maxPrice q)
            (\<lambda>maxPrice p. js_le (p_price p) (parseFloat L maxPrice)) ?f3"
  let ?ps = "sort_products L (q_sort q) ?f4"
  let ?cs = "new_Set (map p_category ?all)"
  have run: "GET_products L q w =
       ((json 200 True)\<lparr>count := Some (length ?ps), categories := Some ?cs,
           data := Some (Products ?ps)\<rparr>, w)"
    by (simp add: GET_products_def Let_def)
  have sub: "set ?ps \<subseteq> set ?f1"
    using set_filter_if [of "q_maxPrice q" _ ?f3] set_filter_if [of "q_minPrice q" _ ?f2]
      set_filter_if [of "q_search q" _ ?f1]
    by (simp add: set_sort_products) blast
  have all: "set ?f1 \<subseteq> set ?all"
    by (rule set_filter_if)
  have cat: "toLowerCase L (p_category p) = toLowerCase L X"
    if "q_category q = Some X" "X \<noteq> []" "p \<in> set ?ps" for X p
  proof -
    from that(3) sub have "p \<in> set ?f1" by blast
    with that(1,2) show ?thesis
      by (simp add: filter_if_def truthy_def)
  qed
  show ?thesis
    using run sub all cat
    by (intro exI [of _ ?ps] exI [of _ ?cs]) (auto simp: set_new_Set distinct_new_Set)
qed

theorem listing_category_filter_witness:
  "q_category (query_all\<lparr>q_category := Some (str ''SANITIZERS'')\<rparr>) = Some (str ''SANITIZERS'') \<and>
   str ''SANITIZERS'' \<noteq> [] \<and>
   (\<exists>ps cs.
      GET_products lib0 (query_all\<lparr>q_category := Some (str ''SANITIZERS'')\<rparr>) world_two =
        ((json 200 True)\<lparr>count := Some (length ps), categories := Some cs,
            data := Some (Products ps)\<rparr>, world_two) \<and>
      set cs = {str ''Sanitizers'', str ''Laundry Care''} \<and> distinct cs \<and>
      list_all (\<lambda>p. toLowerCase lib0 (p_category p) = str ''sanitizers'') ps)"
proof -
  have ne: "str ''SANITIZERS'' \<noteq> []"
    by (simp add: str_def)
  obtain ps cs where run:
    "GET_products lib0 (query_all\<lparr>q_category := Some (str ''SANITIZERS'')\<rparr>) world_two =
        ((json 200 True)\<lparr>count := Some (length ps), categories := Some cs,
            data := Some (Products ps)\<rparr>, world_two)"
    and cs: "set cs = set (map p_category (getProductsData world_two))" "distinct cs"
    and only: "\<forall>X. q_category (query_all\<lparr>q_category := Some (str ''SANITIZERS'')\<rparr>) = Some X \<and> X \<noteq> [] \<longrightarrow>
        (\<forall>p \<in> set ps. toLowerCase lib0 (p_category p) = toLowerCase lib0 X)"
    using listing_category_filter
      [of lib0 "query_all\<lparr>q_category := Some (str ''SANITIZERS'')\<rparr>" world_two]
    by blast
  from only ne have "list_all (\<lambda>p. toLowerCase lib0 (p_category p) = str ''sanitizers'') ps"
    by (simp add: list_all_iff toLowerCase_SANITIZERS)
  moreover from cs(1) have "set cs = {str ''Sanitizers'', str ''Laundry Care''}"
    by (simp add: world_two_products soap_def bleach_def)
  ultimately show ?thesis
    using run cs(2) ne by auto
qed

text \<open>
  With the empty string as category filter value the guard \<^verbatim>\<open>if (category)\<close> skips the
  filter: a product is listed whose category is not the empty string.
\<close>

theorem listing_empty_category_counterexample:
  "q_category (query_all\<lparr>q_category := Some []\<rparr>) = Some [] \<and>
   GET_products lib0 (query_all\<lparr>q_category := Some []\<rparr>) world_soap =
     ((json 200 True)\<lparr>count := Some 1, categories := Some [str ''Sanitizers''],
         data := Some (Products [soap])\<rparr>, world_soap) \<and>
   toLowerCase lib0 (p_category soap) \<noteq> toLowerCase lib0 []"
  by (simp add: GET_products_def world_soap_products filter_if_def truthy_def
      sort_products_def query_all_def new_Set_def lib0_def lowerASCII_def)
    (simp add: soap_def str_def)

subsection \<open>Listing an unreadable catalog\<close>

text \<open>
  C4. When the products file cannot be read (the directory or the file is missing, or the
  file is not readable JSON), \<^verbatim>\<open>GET /api/products\<close> does not fail: the read gives the
  empty list and the answer is a success with count 0, no categories and no items; the
  state is untouched.
\<close>

theorem listing_unreadable_file_is_empty_success:
  "readJSON (products_store w) = None \<Longrightarrow>
   GET_products L q w =
     ((json 200 True)\<lparr>count := Some 0, categories := Some [], data := Some (Products [])\<rparr>, w)"
  by (simp add: GET_products_def getProductsData_def filter_if_Nil sort_products_Nil new_Set_Nil)

theorem listing_unreadable_file_witness:
  "readJSON (products_store world_unreadable) = None \<and>
   success (fst (GET_products lib0 query_all world_unreadable)) \<and>
   status (fst (GET_products lib0 query_all world_unreadable)) = 200 \<and>
   data (fst (GET_products lib0 query_all world_unreadable)) = Some (Products [])"
  using listing_unreadable_file_is_empty_success [of world_unreadable lib0 query_all]
  by (simp add: readJSON_def json_def world_unreadable_def)

subsection \<open>Deleting an id that is not stored\<close>

text \<open>
  C5, as amended. \<^verbatim>\<open>DELETE /api/products/:id\<close> looks up \<^verbatim>\<open>parseInt\<close> of the id string.
  When the string passes the numeric check and its \<^verbatim>\<open>parseInt\<close> value is the id of no
  stored product, the request is answered 404 with \<open>success = False\<close> and the state is
  unchanged; when the string does not pass the numeric check it is answered 400, and the
  state is unchanged as well. \<^verbatim>\<open>DELETE /api/contact/submissions/:id\<close> with an id that no
  stored submission has is answered 404 with \<open>success = False\<close>; the file and what a read
  of it yields are unchanged and \<^verbatim>\<open>fs.writeFile\<close> is not called; the state is
  unchanged altogether when the data directory exists (a missing directory is created by
  the read that precedes the lookup).
\<close>

theorem delete_missing_id_not_found:
  "(isNumeric idp \<and>
    parseInt idp \<notin> set (map (\<lambda>p. Fin (of_int (p_id p))) (getProductsData w)) \<longrightarrow>
      DELETE_product E idp w = ((json 404 False)\<lparr>error := Some ''Product not found''\<rparr>, w)) \<and>
   (\<not> isNumeric idp \<longrightarrow>
      DELETE_product E idp w =
        ((json 400 False)\<lparr>errors := Some [(''id'', ''Product ID must be a number'')]\<rparr>, w)) \<and>
   (sid \<notin> set (map s_id (stored_submissions w)) \<longrightarrow>
      fst (DELETE_submission E sid w) = (json 404 False)\<lparr>error := Some ''Submission not found''\<rparr> \<and>
      readJSON (submissions_store (snd (DELETE_submission E sid w))) = readJSON (submissions_store w) \<and>
      products_store (snd (DELETE_submission E sid w)) = products_store w \<and>
      write_calls (snd (DELETE_submission E sid w)) = write_calls w \<and>
      (submissions_store w \<noteq> DirMissing \<longrightarrow> snd (DELETE_submission E sid w) = w))"
proof -
  have prod: "DELETE_product E idp w = ((json 404 False)\<lparr>error := Some ''Product not found''\<rparr>, w)"
    if "isNumeric idp"
      "parseInt idp \<notin> set (map (\<lambda>p. Fin (of_int (p_id p))) (getProductsData w))"
  proof -
    from that(2) have "findIndex (id_matches idp) (getProductsData w) = None"
      by (auto simp: findIndex_None_iff id_matches_def)
    with that(1) show ?thesis
      by (simp add: DELETE_product_missing not_found_def)
  qed
  have sub: "DELETE_submission E sid w =
      ((json 404 False)\<lparr>error := Some ''Submission not found''\<rparr>, snd (ensureDataDirectory E w))"
    if "sid \<notin> set (map s_id (stored_submissions w))"
  proof -
    from that have "findIndex (\<lambda>s. s_id s = sid) (fst (getSubmissions E w)) = None"
      by (auto simp: findIndex_None_iff getSubmissions_fst)
    then show ?thesis
      by (simp add: DELETE_submission_missing not_found_def getSubmissions_snd)
  qed
  show ?thesis
    using prod sub DELETE_product_invalid [of idp E w]
      ensureDataDirectory_view [of E w] ensureDataDirectory_same [of w E]
    by simp
qed

theorem delete_missing_id_witness:
  "isNumeric (str ''7'') \<and>
   parseInt (str ''7'') \<notin> set (map (\<lambda>p. Fin (of_int (p_id p))) (getProductsData world_ann)) \<and>
   DELETE_product env_ok (str ''7'') world_ann =
     ((json 404 False)\<lparr>error := Some ''Product not found''\<rparr>, world_ann) \<and>
   \<not> isNumeric (str ''abc'') \<and>
   DELETE_product env_ok (str ''abc'') world_ann =
     ((json 400 False)\<lparr>errors := Some [(''id'', ''Product ID must be a number'')]\<rparr>, world_ann) \<and>
   str ''zz'' \<notin> set (map s_id (stored_submissions world_ann)) \<and>
   fst (DELETE_submission env_ok (str ''zz'') world_ann) =
     (json 404 False)\<lparr>error := Some ''Submission not found''\<rparr> \<and>
   snd (DELETE_submission env_ok (str ''zz'') world_ann) = world_ann"
  using delete_missing_id_not_found [of "str ''7''" world_ann env_ok "str ''zz''"]
    delete_missing_id_not_found [of "str ''abc''" world_ann env_ok "str ''zz''"]
  by (simp add: numeric_7 id_abc world_ann_products world_ann_submissions world_ann_dir soap_id
      sub_ann_id str_eq_iff)

text \<open>
  No stored product has the id 2.5, yet \<^verbatim>\<open>DELETE /api/products/2.5\<close> is answered 200 and
  removes the product whose id is 2; and a delete with the id \<^verbatim>\<open>abc\<close>, which no product
  has either, is answered 400, not 404.
\<close>

theorem delete_absent_id_counterexample:
  "numericValue (str ''2.5'') = 5 / 2 \<and>
   map p_id (getProductsData world_two) = [2, 5] \<and>
   status (fst (DELETE_product env_ok (str ''2.5'') world_two)) = 200 \<and>
   success (fst (DELETE_product env_ok (str ''2.5'') world_two)) \<and>
   data (fst (DELETE_product env_ok (str ''2.5'') world_two)) = Some (OneProduct soap) \<and>
   getProductsData (snd (DELETE_product env_ok (str ''2.5'') world_two)) = [bleach] \<and>
   status (fst (DELETE_product env_ok (str ''abc'') world_two)) = 400"
proof -
  have num: "isNumeric (str ''2.5'')"
    by (simp add: id_2_5)
  have i: "findIndex (id_matches (str ''2.5'')) (getProductsData world_two) = Some 0"
    by (simp add: world_two_products id_matches_def id_2_5 soap_id)
  have wr: "fs_writable env_ok"
    by (simp add: env_ok_fields)
  have ne: "getProductsData world_two \<noteq> []"
    by (simp add: world_two_products)
  have del: "getProductsData (snd (DELETE_product env_ok (str ''2.5'') world_two)) = [bleach]"
    by (simp add: DELETE_product_found [OF num i] getProductsData_saved [OF wr ne] splice1_def
        world_two_products)
  have resp: "fst (DELETE_product env_ok (str ''2.5'') world_two) =
      (json 200 True)\<lparr>message := Some ''Product deleted successfully'',
                        data := Some (OneProduct soap)\<rparr>"
    by (simp add: DELETE_product_found [OF num i] world_two_products)
  have bad: "status (fst (DELETE_product env_ok (str ''abc'') world_two)) = 400"
    by (simp add: DELETE_product_invalid [OF id_abc] json_def)
  show ?thesis
    using del bad by (simp add: resp value_2_5 world_two_products soap_id bleach_id json_def)
qed

subsection \<open>Submitting the contact form\<close>

lemma phone_checks_trim:
  "phone_checks b = [] \<Longrightarrow> c_phone b = Some p \<Longrightarrow> trim p \<noteq> []"
  by (auto simp: phone_checks_def matchesPhone_def split: if_splits list.splits)

lemma new_submission_phone:
  "phone_checks b = [] \<Longrightarrow> s_phone (new_submission L E b) = map_option trim (c_phone b)"
  using phone_checks_trim [of b]
  by (cases "c_phone b") (auto simp: new_submission_def truthy_def Let_def)

lemma POST_contact_stored:
  "contact_checks L b = [] \<Longrightarrow> fs_writable E \<Longrightarrow>
   POST_contact L E b w =
      ((json 201 True)
         \<lparr>message := Some ''Thank you for your message! We will get back to you soon.'',
          data := Some (Receipt (uuid E) (now E))\<rparr>,
       (snd (getSubmissions E w))
         \<lparr>submissions_store := Stored (stored_submissions w @ [new_submission L E b]),
          write_calls := Suc (write_calls (snd (getSubmissions E w)))\<rparr>)"
  by (simp add: POST_contact_valid saveSubmissions_ok getSubmissions_fst new_submission_def Let_def)

lemma POST_contact_ids:
  "contact_checks L b = [] \<Longrightarrow> fs_writable E \<Longrightarrow>
   map s_id (stored_submissions (snd (POST_contact L E b w))) =
     map s_id (stored_submissions w) @ [uuid E]"
  by (simp add: POST_contact_stored stored_submissions_def readJSON_def new_submission_def Let_def)

text \<open>
  C6, as amended. A contact submission that passes validation, when the write succeeds, is
  answered 201 with \<^verbatim>\<open>data = {id, submittedAt}\<close> and nothing else of the record; the
  stored collection is the one read with the new record appended. The record carries the
  identifier \<^verbatim>\<open>uuidv4()\<close> returned, status \<^verbatim>\<open>pending\<close>, the time of the request as
  \<^verbatim>\<open>createdAt\<close>, the normalised e-mail, the caller's address and user agent, and the
  trimmed phone, which is null when the body has none. The route does not compare the
  identifier with the stored ones: the identifiers of the collection are pairwise distinct
  afterwards exactly when they were before and \<^verbatim>\<open>uuidv4()\<close> returned a value that no
  stored record has.
\<close>

theorem submit_stores_record_returns_receipt:
  "contact_checks L b = [] \<Longrightarrow> fs_writable E \<Longrightarrow>
   fst (POST_contact L E b w) =
     (json 201 True)
       \<lparr>message := Some ''Thank you for your message! We will get back to you soon.'',
        data := Some (Receipt (uuid E) (now E))\<rparr> \<and>
   submissions_store (snd (POST_contact L E b w)) =
     Stored (stored_submissions w @ [new_submission L E b]) \<and>
   s_id (new_submission L E b) = uuid E \<and>
   s_status (new_submission L E b) = str ''pending'' \<and>
   s_createdAt (new_submission L E b) = now E \<and>
   s_updatedAt (new_submission L E b) = None \<and>
   s_phone (new_submission L E b) = map_option trim (c_phone b) \<and>
   (c_phone b = None \<longrightarrow> s_phone (new_submission L E b) = None) \<and>
   s_email (new_submission L E b) = normalizeEmail L (trim (field_str (c_email b))) \<and>
   s_ipAddress (new_submission L E b) = ip E \<and>
   s_userAgent (new_submission L E b) = user_agent E \<and>
   (distinct (map s_id (stored_submissions (snd (POST_contact L E b w)))) \<longleftrightarrow>
      distinct (map s_id (stored_submissions w)) \<and>
      uuid E \<notin> set (map s_id (stored_submissions w)))"
proof -
  assume valid: "contact_checks L b = []" and wr: "fs_writable E"
  from valid have ph: "phone_checks b = []"
    by (simp add: contact_checks_Nil_iff)
  note resp = POST_contact_stored [OF valid wr, of w]
  have fields: "s_id (new_submission L E b) = uuid E \<and>
      s_status (new_submission L E b) = str ''pending'' \<and>
      s_createdAt (new_submission L E b) = now E \<and>
      s_updatedAt (new_submission L E b) = None \<and>
      s_email (new_submission L E b) = normalizeEmail L (trim (field_str (c_email b))) \<and>
      s_ipAddress (new_submission L E b) = ip E \<and>
      s_userAgent (new_submission L E b) = user_agent E"
    by (simp add: new_submission_def Let_def)
  have dist: "distinct (map s_id (stored_submissions (snd (POST_contact L E b w)))) \<longleftrightarrow>
      distinct (map s_id (stored_submissions w)) \<and>
      uuid E \<notin> set (map s_id (stored_submissions w))"
    by (simp only: POST_contact_ids [OF valid wr] distinct_append) auto
  have r1: "fst (POST_contact L E b w) =
     (json 201 True)
       \<lparr>message := Some ''Thank you for your message! We will get back to you soon.'',
        data := Some (Receipt (uuid E) (now E))\<rparr>"
    by (simp add: resp)
  have r2: "submissions_store (snd (POST_contact L E b w)) =
     Stored (stored_submissions w @ [new_submission L E b])"
    by (simp add: resp)
  show ?thesis
    using r1 r2 fields new_submission_phone [OF ph, of L E] dist by simp
qed

theorem submit_witness:
  "contact_checks lib0 contact_jo = [] \<and> fs_writable env_ok \<and>
   status (fst (POST_contact lib0 env_ok contact_jo world_ann)) = 201 \<and>
   data (fst (POST_contact lib0 env_ok contact_jo world_ann)) =
     Some (Receipt (str ''3f2b8c1e-0000-4000-8000-000000000001'')
             (str ''2024-05-01T10:00:00.000Z'')) \<and>
   submissions_store (snd (POST_contact lib0 env_ok contact_jo world_ann)) =
     Stored [sub_ann, new_submission lib0 env_ok contact_jo] \<and>
   c_phone contact_jo = None \<and>
   s_phone (new_submission lib0 env_ok contact_jo) = None \<and>
   s_status (new_submission lib0 env_ok contact_jo) = str ''pending'' \<and>
   distinct (map s_id (stored_submissions (snd (POST_contact lib0 env_ok contact_jo world_ann))))"
proof -
  have wr: "fs_writable env_ok"
    by (simp add: env_ok_fields)
  have ph: "c_phone contact_jo = None"
    by (simp add: contact_jo_def)
  show ?thesis
    using submit_stores_record_returns_receipt [OF contact_checks_jo wr, of world_ann]
    by (simp add: contact_checks_jo env_ok_fields world_ann_submissions sub_ann_id json_def ph
        str_eq_iff)
qed

text \<open>
  When \<^verbatim>\<open>uuidv4()\<close> returns the identifier of a stored record, the submission is accepted
  and stored under that identifier: the new record's identifier is not unique.
\<close>

theorem submit_repeats_id_counterexample:
  "contact_checks lib0 contact_jo = [] \<and> fs_writable env_ok \<and>
   uuid env_ok = str ''3f2b8c1e-0000-4000-8000-000000000001'' \<and>
   map s_id (stored_submissions world_same) = [str ''3f2b8c1e-0000-4000-8000-000000000001''] \<and>
   status (fst (POST_contact lib0 env_ok contact_jo world_same)) = 201 \<and>
   map s_id (stored_submissions (snd (POST_contact lib0 env_ok contact_jo world_same))) =
     [str ''3f2b8c1e-0000-4000-8000-000000000001'', str ''3f2b8c1e-0000-4000-8000-000000000001'']"
proof -
  have wr: "fs_writable env_ok"
    by (simp add: env_ok_fields)
  have resp: "status (fst (POST_contact lib0 env_ok contact_jo world_same)) = 201"
    by (simp add: POST_contact_stored [OF contact_checks_jo wr] json_def)
  have ids: "map s_id (stored_submissions (snd (POST_contact lib0 env_ok contact_jo world_same))) =
     [str ''3f2b8c1e-0000-4000-8000-000000000001'', str ''3f2b8c1e-0000-4000-8000-000000000001'']"
    by (simp add: POST_contact_ids [OF contact_checks_jo wr] env_ok_fields
        world_same_submissions sub_same_id)
  show ?thesis
    using resp ids
    by (simp add: contact_checks_jo env_ok_fields world_same_submissions sub_same_id)
qed

subsection \<open>Updating the status of a submission\<close>

text \<open>
  C7. \<^verbatim>\<open>PATCH /api/contact/submissions/:id\<close> with a status outside pending, read,
  responded, archived is answered 400 with the validation error of the status field and
  changes nothing. With status \<^verbatim>\<open>archived\<close> on a stored id, when the write succeeds, it
  is answered 200 with the record, its status set to \<^verbatim>\<open>archived\<close> and \<^verbatim>\<open>updatedAt\<close>
  set to the time of the request; a listing with status filter \<^verbatim>\<open>archived\<close> made
  afterwards, in either sort order, succeeds and contains that record.
\<close>

theorem update_status_validates_and_archives:
  "(field_str st \<notin> {str ''pending'', str ''read'', str ''responded'', str ''archived''} \<longrightarrow>
      PATCH_submission E sid st w =
        ((json 400 False)\<lparr>errors := Some [(''status'', ''Invalid status'')]\<rparr>, w)) \<and>
   (sid \<in> set (map s_id (stored_submissions w)) \<and> fs_writable E \<longrightarrow>
      (\<exists>old. old \<in> set (stored_submissions w) \<and> s_id old = sid \<and>
         fst (PATCH_submission E sid (Some (str ''archived'')) w) =
           (json 200 True)
             \<lparr>message := Some ''Submission updated successfully'',
              data := Some (OneSubmission
                (old\<lparr>s_status := str ''archived'', s_updatedAt := Some (now E)\<rparr>))\<rparr> \<and>
         (\<exists>xs. fst (GET_submissions L E' \<lparr>sq_status = Some (str ''archived''), sq_sort = srt\<rparr>
                      (snd (PATCH_submission E sid (Some (str ''archived'')) w))) =
                  (json 200 True)\<lparr>count := Some (length xs), data := Some (Submissions xs)\<rparr> \<and>
               old\<lparr>s_status := str ''archived'', s_updatedAt := Some (now E)\<rparr> \<in> set xs)))"
proof -
  have archive: "\<exists>old. old \<in> set (stored_submissions w) \<and> s_id old = sid \<and>
         fst (PATCH_submission E sid (Some (str ''archived'')) w) =
           (json 200 True)
             \<lparr>message := Some ''Submission updated successfully'',
              data := Some (OneSubmission
                (old\<lparr>s_status := str ''archived'', s_updatedAt := Some (now E)\<rparr>))\<rparr> \<and>
         (\<exists>xs. fst (GET_submissions L E' \<lparr>sq_status = Some (str ''archived''), sq_sort = srt\<rparr>
                      (snd (PATCH_submission E sid (Some (str ''archived'')) w))) =
                  (json 200 True)\<lparr>count := Some (length xs), data := Some (Submissions xs)\<rparr> \<and>
               old\<lparr>s_status := str ''archived'', s_updatedAt := Some (now E)\<rparr> \<in> set xs)"
    if present: "sid \<in> set (map s_id (stored_submissions w))" and wr: "fs_writable E"
  proof -
    let ?subs = "stored_submissions w"
    have ne: "str ''archived'' \<noteq> []"
      by (simp add: str_def)
    from present obtain s where "s \<in> set (fst (getSubmissions E w))" "s_id s = sid"
      by (auto simp: getSubmissions_fst)
    then obtain i where i: "findIndex (\<lambda>s. s_id s = sid) (fst (getSubmissions E w)) = Some i"
      using findIndex_ex [of s "fst (getSubmissions E w)" "\<lambda>s. s_id s = sid"] by auto
    from findIndex_Some [OF i] have bound: "i < length ?subs" and idi: "s_id (?subs ! i) = sid"
      by (simp_all add: getSubmissions_fst)
    let ?new = "(?subs ! i)\<lparr>s_status := str ''archived'', s_updatedAt := Some (now E)\<rparr>"
    have valid: "status_checks (Some (str ''archived'')) = []"
      by (simp add: status_checks_def isIn_def field_str_def)
    have run: "PATCH_submission E sid (Some (str ''archived'')) w =
        ((json 200 True)\<lparr>message := Some ''Submission updated successfully'',
            data := Some (OneSubmission ?new)\<rparr>,
         (snd (getSubmissions E w))
           \<lparr>submissions_store := Stored (?subs[i := ?new]),
            write_calls := Suc (write_calls (snd (getSubmissions E w)))\<rparr>)"
      using bound wr
      by (simp add: PATCH_submission_found [OF valid i] saveSubmissions_ok getSubmissions_fst
          field_str_def)
    have after: "stored_submissions (snd (PATCH_submission E sid (Some (str ''archived'')) w)) =
        ?subs[i := ?new]"
      by (simp add: run stored_submissions_def readJSON_def)
    obtain xs where xs:
      "fst (GET_submissions L E' \<lparr>sq_status = Some (str ''archived''), sq_sort = srt\<rparr>
             (snd (PATCH_submission E sid (Some (str ''archived'')) w))) =
         (json 200 True)\<lparr>count := Some (length xs), data := Some (Submissions xs)\<rparr>"
      "set xs = set (filter_if (Some (str ''archived'')) (\<lambda>st s. s_status s = st) (?subs[i := ?new]))"
      using GET_submissions_data [of L E' "\<lparr>sq_status = Some (str ''archived''), sq_sort = srt\<rparr>"
          "snd (PATCH_submission E sid (Some (str ''archived'')) w)"]
      by (auto simp: after)
    have "?new \<in> set (?subs[i := ?new])"
      using bound by (simp add: set_update_memI)
    then have "?new \<in> set xs"
      by (simp add: xs(2) filter_if_def truthy_def ne)
    with xs(1) bound idi show ?thesis
      by (intro exI [of _ "?subs ! i"]) (auto simp: run)
  qed
  show ?thesis
    using PATCH_submission_invalid [of st E sid w] archive by blast
qed

theorem update_status_witness:
  "field_str (Some (str ''bogus'')) \<notin>
     {str ''pending'', str ''read'', str ''responded'', str ''archived''} \<and>
   PATCH_submission env_ok (str ''a1'') (Some (str ''bogus'')) world_ann =
     ((json 400 False)\<lparr>errors := Some [(''status'', ''Invalid status'')]\<rparr>, world_ann) \<and>
   str ''a1'' \<in> set (map s_id (stored_submissions world_ann)) \<and> fs_writable env_ok \<and>
   (\<exists>xs. fst (GET_submissions lib0 env_ok \<lparr>sq_status = Some (str ''archived''), sq_sort = None\<rparr>
                (snd (PATCH_submission env_ok (str ''a1'') (Some (str ''archived'')) world_ann))) =
            (json 200 True)\<lparr>count := Some (length xs), data := Some (Submissions xs)\<rparr> \<and>
          sub_ann\<lparr>s_status := str ''archived'', s_updatedAt := Some (now env_ok)\<rparr> \<in> set xs)"
  using update_status_validates_and_archives
    [of "Some (str ''bogus'')" env_ok "str ''a1''" world_ann lib0 env_ok None]
  by (auto simp: world_ann_submissions field_str_def sub_ann_id env_ok_fields str_eq_iff)

subsection \<open>The length rule of the contact message\<close>

lemma message_checks_Nil_iff:
  "message_checks b = [] \<longleftrightarrow>
     10 \<le> measuredLength (trim (field_str (c_message b))) \<and>
     measuredLength (trim (field_str (c_message b))) \<le> 2000"
  by (auto simp: message_checks_def Let_def notEmpty_def isLength_def measuredLength_def)

lemma message_checks_nine:
  "measuredLength (trim (field_str (c_message b))) = 9 \<Longrightarrow>
   message_checks b = [(''message'', ''Message must be 10-2000 characters'')]"
  by (auto simp: message_checks_def Let_def notEmpty_def isLength_def measuredLength_def)

lemma surrogatePairs_none: "list_all (\<lambda>c. \<not> isHighSurrogate c) s \<Longrightarrow> surrogatePairs s = 0"
  by (induction s rule: surrogatePairs.induct) simp_all

lemma measuredLength_plain:
  assumes "list_all (\<lambda>c. c \<noteq> 65038 \<and> c \<noteq> 65039 \<and> \<not> isHighSurrogate c) s"
  shows "measuredLength s = length s"
proof -
  from assms have "list_all (\<lambda>c. \<not> isHighSurrogate c) s"
    by (simp add: list_all_iff)
  then have "surrogatePairs s = 0"
    by (rule surrogatePairs_none)
  moreover from assms have "filter (\<lambda>c. c = 65039 \<or> c = 65038) s = []"
    by (auto simp: list_all_iff filter_empty_conv)
  ultimately show ?thesis
    by (simp add: measuredLength_def presentationSequences_def)
qed

text \<open>
  C8. For a contact submission whose other fields pass their rules, the message is
  judged on its length after \<^verbatim>\<open>trim\<close>, which removes the white space \<^verbatim>\<open>\s\<close> at both
  ends; the length is the one \<^verbatim>\<open>isLength\<close> measures, the number of code units of a
  message without variation selectors and surrogate pairs. With 9 characters the request
  is answered 400 with the one (field, message) pair of the length rule and the state is
  untouched; with 10 characters validation passes; and validation passes exactly for
  lengths from 10 to 2000.
\<close>

theorem message_length_bounds:
  "firstName_checks b = [] \<and> lastName_checks b = [] \<and> email_checks L b = [] \<and>
   phone_checks b = [] \<and> subject_checks b = [] \<Longrightarrow>
   (measuredLength (trim (field_str (c_message b))) = 9 \<longrightarrow>
      POST_contact L E b w =
        ((json 400 False)
           \<lparr>errors := Some [(''message'', ''Message must be 10-2000 characters'')]\<rparr>, w)) \<and>
   (measuredLength (trim (field_str (c_message b))) = 10 \<longrightarrow> contact_checks L b = []) \<and>
   (contact_checks L b = [] \<longleftrightarrow>
      10 \<le> measuredLength (trim (field_str (c_message b))) \<and>
      measuredLength (trim (field_str (c_message b))) \<le> 2000) \<and>
   (list_all (\<lambda>c. c \<noteq> 65038 \<and> c \<noteq> 65039 \<and> \<not> isHighSurrogate c)
      (trim (field_str (c_message b))) \<longrightarrow>
      measuredLength (trim (field_str (c_message b))) = length (trim (field_str (c_message b))))"
proof -
  assume others: "firstName_checks b = [] \<and> lastName_checks b = [] \<and> email_checks L b = [] \<and>
    phone_checks b = [] \<and> subject_checks b = []"
  then have all: "contact_checks L b = message_checks b"
    by (simp add: contact_checks_def)
  have nine: "POST_contact L E b w =
        ((json 400 False)
           \<lparr>errors := Some [(''message'', ''Message must be 10-2000 characters'')]\<rparr>, w)"
    if "measuredLength (trim (field_str (c_message b))) = 9"
    using message_checks_nine [OF that] all
    by (simp add: POST_contact_def handleValidationErrors_def)
  have ten: "contact_checks L b = []" if "measuredLength (trim (field_str (c_message b))) = 10"
    using that all by (simp add: message_checks_Nil_iff)
  show ?thesis
    using nine ten all message_checks_Nil_iff [of b]
      measuredLength_plain [of "trim (field_str (c_message b))"]
    by simp
qed

theorem message_length_witness:
  "c_message contact_nine = Some (str ''  Call me!!'' @ [160]) \<and>
   trim (field_str (c_message contact_nine)) = str ''Call me!!'' \<and>
   measuredLength (trim (field_str (c_message contact_nine))) = 9 \<and>
   status (fst (POST_contact lib0 env_ok contact_nine world_empty)) = 400 \<and>
   \<not> success (fst (POST_contact lib0 env_ok contact_nine world_empty)) \<and>
   errors (fst (POST_contact lib0 env_ok contact_nine world_empty)) =
     Some [(''message'', ''Message must be 10-2000 characters'')] \<and>
   snd (POST_contact lib0 env_ok contact_nine world_empty) = world_empty \<and>
   measuredLength (trim (field_str (c_message contact_ten))) = 10 \<and>
   contact_checks lib0 contact_ten = []"
proof -
  have others9: "firstName_checks contact_nine = [] \<and> lastName_checks contact_nine = [] \<and>
      email_checks lib0 contact_nine = [] \<and> phone_checks contact_nine = [] \<and>
      subject_checks contact_nine = []"
    unfolding contact_nine_def by (rule contact_jo_other_checks)
  have others10: "firstName_checks contact_ten = [] \<and> lastName_checks contact_ten = [] \<and>
      email_checks lib0 contact_ten = [] \<and> phone_checks contact_ten = [] \<and>
      subject_checks contact_ten = []"
    unfolding contact_ten_def by (rule contact_jo_other_checks)
  have msg: "c_message contact_nine = Some (str ''  Call me!!'' @ [160])"
    by (simp add: contact_nine_def)
  have tr: "trim (field_str (c_message contact_nine)) = str ''Call me!!''"
    by (simp add: contact_nine_def str_defs)
  have nine: "POST_contact lib0 env_ok contact_nine world_empty =
        ((json 400 False)
           \<lparr>errors := Some [(''message'', ''Message must be 10-2000 characters'')]\<rparr>,
         world_empty)"
    using message_length_bounds [OF others9, of env_ok world_empty]
    by (simp add: contact_nine_length)
  have ten: "contact_checks lib0 contact_ten = []"
    using message_length_bounds [OF others10, of env_ok world_empty]
    by (simp add: contact_ten_length)
  have resp: "status (fst (POST_contact lib0 env_ok contact_nine world_empty)) = 400 \<and>
      \<not> success (fst (POST_contact lib0 env_ok contact_nine world_empty)) \<and>
      errors (fst (POST_contact lib0 env_ok contact_nine world_empty)) =
        Some [(''message'', ''Message must be 10-2000 characters'')] \<and>
      snd (POST_contact lib0 env_ok contact_nine world_empty) = world_empty"
    by (simp add: nine json_def)
  show ?thesis
    by (intro conjI msg tr contact_nine_length contact_ten_length ten
        resp [THEN conjunct1] resp [THEN conjunct2, THEN conjunct1]
        resp [THEN conjunct2, THEN conjunct2, THEN conjunct1]
        resp [THEN conjunct2, THEN conjunct2, THEN conjunct2])
qed

subsection \<open>Numeric ids and \<^verbatim>\<open>parseInt\<close>\<close>

lemma radixVal_digit: "isDigit c \<Longrightarrow> radixVal c \<le> 9"
  by (auto simp: radixVal_def isDigit_def digitVal_def)

lemma digits_fold_bound:
  "list_all isDigit ds \<Longrightarrow>
   foldl (\<lambda>a c. a * 10 + radixVal c) a ds < (a + 1) * 10 ^ length ds"
proof (induction ds arbitrary: a)
  case Nil
  then show ?case by simp
next
  case (Cons d ds)
  then have d: "radixVal d \<le> 9" and ds: "list_all isDigit ds"
    by (simp_all add: radixVal_digit)
  have "foldl (\<lambda>a c. a * 10 + radixVal c) (a * 10 + radixVal d) ds
      < (a * 10 + radixVal d + 1) * 10 ^ length ds"
    by (rule Cons.IH [OF ds])
  also have "\<dots> \<le> (a * 10 + 10) * 10 ^ length ds"
    using d by (intro mult_right_mono) auto
  also have "\<dots> = (a + 1) * 10 ^ length (d # ds)"
    by (simp add: algebra_simps)
  finally show ?case by simp
qed

lemma digitsValue_bound: "list_all isDigit ds \<Longrightarrow> digitsValue 10 ds < 10 ^ length ds"
  using digits_fold_bound [of ds 0] by (simp add: digitsValue_def)

lemma truncation_nat_frac:
  fixes f :: rat
  assumes "0 \<le> f" "f < 1"
  shows "truncation (of_nat n + f) = int n" "truncation (- (of_nat n + f)) = - int n"
proof -
  have fl: "\<lfloor>of_nat n + f\<rfloor> = int n"
    using assms by (simp add: floor_unique)
  have nonneg: "0 \<le> of_nat n + f"
    using assms by simp
  show "truncation (of_nat n + f) = int n"
    using fl nonneg by (simp add: truncation_def)
  show "truncation (- (of_nat n + f)) = - int n"
  proof (cases "of_nat n + f = 0")
    case True
    then have "n = 0"
      using assms by (metis add_nonneg_eq_0_iff of_nat_0_le_iff of_nat_eq_0_iff)
    with True show ?thesis by (simp add: truncation_def)
  next
    case False
    with nonneg have "\<not> 0 \<le> - (of_nat n + f)" by simp
    then show ?thesis
      using fl by (simp add: truncation_def ceiling_def)
  qed
qed

lemma digit_not_space: "isDigit c \<Longrightarrow> \<not> isWhiteSpace c"
  by (auto simp: isDigit_def isWhiteSpace_def)

lemma splitSign_cases:
  "splitSign s = (neg, s1) \<Longrightarrow>
   (s = s1 \<and> \<not> neg) \<or> (s = of_char CHR ''+'' # s1 \<and> \<not> neg) \<or>
   (s = of_char CHR ''-'' # s1 \<and> neg)"
  by (auto simp: splitSign_def split: list.splits if_splits)

lemma numeric_no_leading_space:
  assumes "hasIntegerPart s"
  shows "dropWhile isWhiteSpace s = s"
proof -
  obtain neg s1 where sp: "splitSign s = (neg, s1)"
    by (cases "splitSign s")
  from assms sp have "takeWhile isDigit s1 \<noteq> []"
    by (simp add: hasIntegerPart_def)
  then obtain c r where s1: "s1 = c # r" and c: "isDigit c"
    by (cases s1) (auto split: if_splits)
  have sign: "\<not> isWhiteSpace (of_char CHR ''+'')" "\<not> isWhiteSpace (of_char CHR ''-'')"
    by (simp_all add: isWhiteSpace_def)
  from splitSign_cases [OF sp] s1 c show ?thesis
    using sign by (auto simp: digit_not_space)
qed

lemma numeric_radix_10:
  assumes "isNumeric s" "splitSign s = (neg, s1)"
  shows "(case s1 of
            a # b # r \<Rightarrow>
              if a = of_char CHR ''0'' \<and> (b = of_char CHR ''x'' \<or> b = of_char CHR ''X'')
              then (16::nat, r) else (10, s1)
          | _ \<Rightarrow> (10, s1)) = (10, s1)"
proof (cases s1)
  case Nil
  then show ?thesis by simp
next
  case (Cons a t)
  show ?thesis
  proof (cases t)
    case Nil
    with Cons show ?thesis by simp
  next
    case (Cons b r)
    have "\<not> (a = of_char CHR ''0'' \<and> (b = of_char CHR ''x'' \<or> b = of_char CHR ''X''))"
    proof
      assume hex: "a = of_char CHR ''0'' \<and> (b = of_char CHR ''x'' \<or> b = of_char CHR ''X'')"
      then have "isDigit a" "\<not> isDigit b" "b \<noteq> of_char CHR ''.''"
        by (auto simp: isDigit_def)
      with assms \<open>s1 = a # t\<close> Cons show False
        by (simp add: isNumeric_def)
    qed
    with \<open>s1 = a # t\<close> Cons show ?thesis by simp
  qed
qed

lemma numeric_fraction_digits:
  assumes "isNumeric s" "splitSign s = (neg, s1)"
  shows "list_all isDigit (drop 1 (dropWhile isDigit s1))"
proof (cases "dropWhile isDigit s1")
  case Nil
  show ?thesis unfolding Nil by simp
next
  case (Cons c fp)
  with assms show ?thesis
    by (simp add: isNumeric_def)
qed

lemma parseInt_numeric:
  assumes "isNumeric s" "hasIntegerPart s" "splitSign s = (neg, s1)"
  shows "parseInt s =
     numberOfInt ((if neg then - 1 else 1) * int (digitsValue 10 (takeWhile isDigit s1)))"
proof -
  have ip: "takeWhile isDigit s1 \<noteq> []"
    using assms(2,3) by (simp add: hasIntegerPart_def)
  have radix: "takeWhile (isRadixDigit 10) s1 = takeWhile isDigit s1"
    by (simp add: isRadixDigit_def [abs_def])
  show ?thesis
    unfolding parseInt_def numeric_no_leading_space [OF assms(2)] assms(3)
    using ip by (simp add: numeric_radix_10 [OF assms(1,3)] radix Let_def)
qed

lemma parseInt_is_rounded_truncation:
  assumes "isNumeric s" "hasIntegerPart s"
  shows "parseInt s = numberOfInt (truncation (numericValue s))"
proof -
  obtain neg s1 where sp: "splitSign s = (neg, s1)"
    by (cases "splitSign s")
  let ?ip = "takeWhile isDigit s1"
  let ?fp = "drop 1 (dropWhile isDigit s1)"
  let ?f = "of_nat (digitsValue 10 ?fp) / 10 ^ length ?fp :: rat"
  have "digitsValue 10 ?fp < 10 ^ length ?fp"
    by (rule digitsValue_bound [OF numeric_fraction_digits [OF assms(1) sp]])
  then have "(of_nat (digitsValue 10 ?fp) :: rat) < of_nat (10 ^ length ?fp)"
    by (simp only: of_nat_less_iff)
  then have f: "0 \<le> ?f" "?f < 1"
    by simp_all
  have nv: "numericValue s =
      (if neg then - (of_nat (digitsValue 10 ?ip) + ?f) else of_nat (digitsValue 10 ?ip) + ?f)"
    by (simp add: numericValue_def sp Let_def)
  show ?thesis
    using truncation_nat_frac [OF f, of "digitsValue 10 ?ip"]
    by (simp add: parseInt_numeric [OF assms sp] nv)
qed

lemma id_matches_numeric:
  "isNumeric idp \<Longrightarrow> hasIntegerPart idp \<Longrightarrow>
   id_matches idp = (\<lambda>p. numberOfInt (truncation (numericValue idp)) = Fin (of_int (p_id p)))"
  by (simp add: id_matches_def fun_eq_iff parseInt_is_rounded_truncation)

subsection \<open>Products addressed by a numeric id\<close>

text \<open>
  C9, as amended. The id of \<^verbatim>\<open>GET\<close>, \<^verbatim>\<open>PUT\<close> and \<^verbatim>\<open>DELETE /api/products/:id\<close> may be any
  string that passes \<^verbatim>\<open>isNumeric\<close>, not only an integer. When it has a digit before its
  decimal point, \<^verbatim>\<open>parseInt\<close> of the string is the Number value of the integer truncation
  of the number the string denotes: the truncation itself when it is at most \<open>2^53\<close> in
  magnitude, its nearest double beyond. The routes act on the first stored product whose
  id is that number: the product is returned, the answer to an update carries the merged
  product, the answer to a delete carries the product, and when the write succeeds the
  stored list has the product replaced, or removed, at its position. So the id \<^verbatim>\<open>2.5\<close>
  reaches the product whose id is 2.
\<close>

theorem numeric_id_matches_by_truncation:
  "isNumeric idp \<and> hasIntegerPart idp \<and>
   find (\<lambda>p. numberOfInt (truncation (numericValue idp)) = Fin (of_int (p_id p)))
     (getProductsData w) = Some p \<Longrightarrow>
   parseInt idp = numberOfInt (truncation (numericValue idp)) \<and>
   (\<bar>truncation (numericValue idp)\<bar> \<le> 2 ^ 53 \<longrightarrow>
      parseInt idp = Fin (of_int (truncation (numericValue idp))) \<and>
      p_id p = truncation (numericValue idp)) \<and>
   GET_product idp w = ((json 200 True)\<lparr>data := Some (OneProduct p)\<rparr>, w) \<and>
   (update_checks idp u = [] \<longrightarrow>
      fst (PUT_product E idp u w) =
        (json 200 True)\<lparr>message := Some ''Product updated successfully'',
                          data := Some (OneProduct (merge_product E p u))\<rparr>) \<and>
   fst (DELETE_product E idp w) =
     (json 200 True)\<lparr>message := Some ''Product deleted successfully'',
                       data := Some (OneProduct p)\<rparr> \<and>
   (fs_writable E \<longrightarrow>
      (\<exists>i. i < length (getProductsData w) \<and> getProductsData w ! i = p \<and>
           (\<forall>j < i. p_id (getProductsData w ! j) \<noteq> p_id p) \<and>
           (update_checks idp u = [] \<longrightarrow>
              getProductsData (snd (PUT_product E idp u w)) =
                (getProductsData w)[i := merge_product E p u]) \<and>
           getProductsData (snd (DELETE_product E idp w)) =
             take i (getProductsData w) @ drop (Suc i) (getProductsData w)))"
proof -
  assume a: "isNumeric idp \<and> hasIntegerPart idp \<and>
   find (\<lambda>p. numberOfInt (truncation (numericValue idp)) = Fin (of_int (p_id p)))
     (getProductsData w) = Some p"
  let ?n = "truncation (numericValue idp)"
  let ?ps = "getProductsData w"
  from a have num: "isNumeric idp" and ip: "hasIntegerPart idp"
    by simp_all
  have parsed: "parseInt idp = numberOfInt ?n"
    by (rule parseInt_is_rounded_truncation [OF num ip])
  have m: "id_matches idp = (\<lambda>p. numberOfInt ?n = Fin (of_int (p_id p)))"
    by (rule id_matches_numeric [OF num ip])
  from a have f: "find (id_matches idp) ?ps = Some p"
    by (simp add: m)
  from find_findIndex [OF f] obtain i where
    i: "findIndex (id_matches idp) ?ps = Some i" and bound: "i < length ?ps"
    and at: "?ps ! i = p" and first: "\<forall>j < i. \<not> id_matches idp (?ps ! j)"
    by blast
  from bound at have pid: "numberOfInt ?n = Fin (of_int (p_id p))"
    using findIndex_Some [OF i] by (simp add: m)
  from bound have ne: "?ps \<noteq> []" by auto
  have differ: "\<forall>j < i. p_id (?ps ! j) \<noteq> p_id p"
  proof (intro allI impI notI)
    fix j assume "j < i" "p_id (?ps ! j) = p_id p"
    with pid have "id_matches idp (?ps ! j)"
      by (simp add: m)
    with first \<open>j < i\<close> show False by blast
  qed
  have safe: "parseInt idp = Fin (of_int ?n) \<and> p_id p = ?n" if "\<bar>?n\<bar> \<le> 2 ^ 53"
  proof -
    have e: "numberOfInt ?n = Fin (of_int ?n)"
      by (rule numberOfInt_safe [OF that])
    from pid have "Fin (of_int ?n) = Fin (of_int (p_id p))"
      by (simp only: e)
    then have same: "p_id p = ?n"
      by simp
    have "parseInt idp = Fin (of_int ?n)"
      by (simp only: parsed e)
    then show ?thesis
      using same by (rule conjI)
  qed
  have get: "GET_product idp w = ((json 200 True)\<lparr>data := Some (OneProduct p)\<rparr>, w)"
    by (rule GET_product_found [OF num f])
  have put: "PUT_product E idp u w =
      ((json 200 True)\<lparr>message := Some ''Product updated successfully'',
          data := Some (OneProduct (merge_product E p u))\<rparr>,
       snd (saveProductsData E (?ps[i := merge_product E p u]) w))"
    if "update_checks idp u = []"
    using PUT_product_found [OF that i, of E] by (simp add: at)
  have del: "DELETE_product E idp w =
      ((json 200 True)\<lparr>message := Some ''Product deleted successfully'',
          data := Some (OneProduct p)\<rparr>,
       snd (saveProductsData E (splice1 i ?ps) w))"
    using DELETE_product_found [OF num i, of E] by (simp add: at)
  have stored: "\<exists>i. i < length ?ps \<and> ?ps ! i = p \<and> (\<forall>j < i. p_id (?ps ! j) \<noteq> p_id p) \<and>
           (update_checks idp u = [] \<longrightarrow>
              getProductsData (snd (PUT_product E idp u w)) = ?ps[i := merge_product E p u]) \<and>
           getProductsData (snd (DELETE_product E idp w)) = take i ?ps @ drop (Suc i) ?ps"
    if wr: "fs_writable E"
    using bound at differ put del
    by (intro exI [of _ i]) (simp add: getProductsData_saved [OF wr ne] splice1_def)
  show ?thesis
    using parsed safe get put del stored by simp
qed

theorem numeric_id_witness:
  "isNumeric (str ''2.5'') \<and> hasIntegerPart (str ''2.5'') \<and>
   truncation (numericValue (str ''2.5'')) = 2 \<and>
   find (\<lambda>p. numberOfInt (truncation (numericValue (str ''2.5''))) = Fin (of_int (p_id p)))
     (getProductsData world_two) = Some soap \<and>
   p_id soap = 2 \<and>
   GET_product (str ''2.5'') world_two =
     ((json 200 True)\<lparr>data := Some (OneProduct soap)\<rparr>, world_two) \<and>
   update_checks (str ''2.5'') patch_price = [] \<and>
   fst (PUT_product env_ok (str ''2.5'') patch_price world_two) =
     (json 200 True)\<lparr>message := Some ''Product updated successfully'',
                       data := Some (OneProduct (merge_product env_ok soap patch_price))\<rparr> \<and>
   fst (DELETE_product env_ok (str ''2.5'') world_two) =
     (json 200 True)\<lparr>message := Some ''Product deleted successfully'',
                       data := Some (OneProduct soap)\<rparr> \<and>
   fs_writable env_ok \<and>
   getProductsData (snd (PUT_product env_ok (str ''2.5'') patch_price world_two)) =
     [merge_product env_ok soap patch_price, bleach] \<and>
   getProductsData (snd (DELETE_product env_ok (str ''2.5'') world_two)) = [bleach] \<and>
   isNumeric (str ''9007199254740993'') \<and> hasIntegerPart (str ''9007199254740993'') \<and>
   truncation (numericValue (str ''9007199254740993'')) = 9007199254740993 \<and>
   parseInt (str ''9007199254740993'') = Fin 9007199254740992 \<and>
   p_id product_big = 9007199254740992 \<and>
   GET_product (str ''9007199254740993'') world_big =
     ((json 200 True)\<lparr>data := Some (OneProduct product_big)\<rparr>, world_big)"
proof -
  have differ: "bleach \<noteq> soap"
    by (simp add: bleach_def soap_def)
  have two: "numberOfInt 2 = Fin 2"
    by (simp add: numberOfInt_safe)
  have hyp: "isNumeric (str ''2.5'') \<and> hasIntegerPart (str ''2.5'') \<and>
      find (\<lambda>p. numberOfInt (truncation (numericValue (str ''2.5''))) = Fin (of_int (p_id p)))
        (getProductsData world_two) = Some soap"
    by (simp add: id_2_5 world_two_products two soap_id)
  have big: "numberOfInt 9007199254740993 = Fin 9007199254740992"
    by (simp add: numberOfInt_def roundInt_def binaryScale_small binaryScale_step)
  have hyp_big: "isNumeric (str ''9007199254740993'') \<and> hasIntegerPart (str ''9007199254740993'') \<and>
      find (\<lambda>p. numberOfInt (truncation (numericValue (str ''9007199254740993''))) =
                  Fin (of_int (p_id p)))
        (getProductsData world_big) = Some product_big"
    by (simp add: id_big world_big_products big product_big_id)
  have get_big: "GET_product (str ''9007199254740993'') world_big =
     ((json 200 True)\<lparr>data := Some (OneProduct product_big)\<rparr>, world_big)"
    using numeric_id_matches_by_truncation [OF hyp_big, of patch_price env_ok] by simp
  from numeric_id_matches_by_truncation [OF hyp, of patch_price env_ok]
  have resp: "GET_product (str ''2.5'') world_two =
      ((json 200 True)\<lparr>data := Some (OneProduct soap)\<rparr>, world_two)"
    "fst (PUT_product env_ok (str ''2.5'') patch_price world_two) =
     (json 200 True)\<lparr>message := Some ''Product updated successfully'',
                       data := Some (OneProduct (merge_product env_ok soap patch_price))\<rparr>"
    "fst (DELETE_product env_ok (str ''2.5'') world_two) =
     (json 200 True)\<lparr>message := Some ''Product deleted successfully'',
                       data := Some (OneProduct soap)\<rparr>"
    and "\<exists>i. i < length [soap, bleach] \<and> [soap, bleach] ! i = soap \<and>
           getProductsData (snd (PUT_product env_ok (str ''2.5'') patch_price world_two)) =
             [soap, bleach][i := merge_product env_ok soap patch_price] \<and>
           getProductsData (snd (DELETE_product env_ok (str ''2.5'') world_two)) =
             take i [soap, bleach] @ drop (Suc i) [soap, bleach]"
    by (auto simp: update_checks_2_5 env_ok_fields world_two_products)
  then obtain i where i: "i < length [soap, bleach]" "[soap, bleach] ! i = soap"
    and put: "getProductsData (snd (PUT_product env_ok (str ''2.5'') patch_price world_two)) =
             [soap, bleach][i := merge_product env_ok soap patch_price]"
    and del: "getProductsData (snd (DELETE_product env_ok (str ''2.5'') world_two)) =
             take i [soap, bleach] @ drop (Suc i) [soap, bleach]"
    by blast
  from i differ have "i = 0"
    by (cases i) auto
  with put del resp get_big hyp hyp_big show ?thesis
    by (simp add: id_2_5 id_big update_checks_2_5 soap_id product_big_id env_ok_fields)
qed

text \<open>
  The id \<^verbatim>\<open>.5\<close> passes \<^verbatim>\<open>isNumeric\<close> and its truncation is 0, but \<^verbatim>\<open>parseInt\<close> gives NaN
  for it: the stored product with id 0 is not found by any of the three routes.
\<close>

theorem numeric_id_counterexample:
  "isNumeric (str ''.5'') \<and>
   truncation (numericValue (str ''.5'')) = p_id product_zero \<and>
   getProductsData world_zero = [product_zero] \<and>
   GET_product (str ''.5'') world_zero =
     ((json 404 False)\<lparr>error := Some ''Product not found''\<rparr>, world_zero) \<and>
   PUT_product env_ok (str ''.5'') patch_price world_zero =
     ((json 404 False)\<lparr>error := Some ''Product not found''\<rparr>, world_zero) \<and>
   DELETE_product env_ok (str ''.5'') world_zero =
     ((json 404 False)\<lparr>error := Some ''Product not found''\<rparr>, world_zero)"
proof -
  have ps: "getProductsData world_zero = [product_zero]"
    by (simp add: getProductsData_def world_zero_def readJSON_def)
  have nm: "\<not> id_matches (str ''.5'') product_zero"
    by (simp add: id_matches_def id_point_5)
  then have none: "findIndex (id_matches (str ''.5'')) [product_zero] = None"
    "find (id_matches (str ''.5'')) [product_zero] = None"
    by simp_all
  have upd: "update_checks (str ''.5'') patch_price = []"
    by (simp add: update_checks_def id_checks_def patch_price_def id_point_5)
  have put: "PUT_product env_ok (str ''.5'') patch_price world_zero =
     ((json 404 False)\<lparr>error := Some ''Product not found''\<rparr>, world_zero)"
    by (simp add: PUT_product_def upd handleValidationErrors_def ps nm not_found_def)
  have num: "isNumeric (str ''.5'')"
    by (simp add: id_point_5)
  have get: "GET_product (str ''.5'') world_zero =
     ((json 404 False)\<lparr>error := Some ''Product not found''\<rparr>, world_zero)"
    using GET_product_missing [OF num, of world_zero] by (simp add: ps nm not_found_def)
  have del: "DELETE_product env_ok (str ''.5'') world_zero =
     ((json 404 False)\<lparr>error := Some ''Product not found''\<rparr>, world_zero)"
    using DELETE_product_missing [OF num, of world_zero env_ok] by (simp add: ps nm not_found_def)
  have "truncation (numericValue (str ''.5'')) = p_id product_zero"
    by (simp add: id_point_5 product_zero_def)
  with num ps get put del show ?thesis by simp
qed

subsection \<open>Listing with price bounds that are not numbers\<close>

text \<open>
  C10, as amended. When the \<^verbatim>\<open>minPrice\<close> or the \<^verbatim>\<open>maxPrice\<close> query value is a non-empty
  string for which \<^verbatim>\<open>parseFloat\<close> gives NaN, \<^verbatim>\<open>GET /api/products\<close> answers 200 with
  \<open>success = True\<close>, count 0 and no items (every comparison with NaN is false), and the
  categories of the whole catalog; it is not a validation error.
\<close>

theorem listing_unparsable_price_is_empty:
  "q_minPrice q = Some m \<or> q_maxPrice q = Some m \<Longrightarrow> m \<noteq> [] \<Longrightarrow> parseFloat L m = NaN \<Longrightarrow>
   GET_products L q w =
     ((json 200 True)\<lparr>count := Some 0,
         categories := Some (new_Set (map p_category (getProductsData w))),
         data := Some (Products [])\<rparr>, w)"
proof -
  assume which: "q_minPrice q = Some m \<or> q_maxPrice q = Some m"
    and m: "m \<noteq> []" "parseFloat L m = NaN"
  from which show ?thesis
  proof
    assume "q_minPrice q = Some m"
    then show ?thesis
      by (simp add: GET_products_def filter_if_NaN_min [OF m] filter_if_Nil sort_products_Nil)
  next
    assume "q_maxPrice q = Some m"
    then show ?thesis
      by (simp add: GET_products_def filter_if_NaN_max [OF m] sort_products_Nil)
  qed
qed

theorem listing_unparsable_price_witness:
  "q_minPrice (query_all\<lparr>q_minPrice := Some (str ''abc'')\<rparr>) = Some (str ''abc'') \<and>
   str ''abc'' \<noteq> [] \<and>
   parseFloat lib0 (str ''abc'') = NaN \<and>
   GET_products lib0 (query_all\<lparr>q_minPrice := Some (str ''abc'')\<rparr>) world_soap =
     ((json 200 True)\<lparr>count := Some 0, categories := Some [str ''Sanitizers''],
         data := Some (Products [])\<rparr>, world_soap) \<and>
   q_maxPrice (query_all\<lparr>q_maxPrice := Some (str ''abc'')\<rparr>) = Some (str ''abc'') \<and>
   GET_products lib0 (query_all\<lparr>q_maxPrice := Some (str ''abc'')\<rparr>) world_soap =
     ((json 200 True)\<lparr>count := Some 0, categories := Some [str ''Sanitizers''],
         data := Some (Products [])\<rparr>, world_soap)"
proof -
  have ne: "str ''abc'' \<noteq> []"
    by (simp add: str_def)
  have qmin: "q_minPrice (query_all\<lparr>q_minPrice := Some (str ''abc'')\<rparr>) = Some (str ''abc'') \<or>
      q_maxPrice (query_all\<lparr>q_minPrice := Some (str ''abc'')\<rparr>) = Some (str ''abc'')"
    by simp
  have qmax: "q_minPrice (query_all\<lparr>q_maxPrice := Some (str ''abc'')\<rparr>) = Some (str ''abc'') \<or>
      q_maxPrice (query_all\<lparr>q_maxPrice := Some (str ''abc'')\<rparr>) = Some (str ''abc'')"
    by simp
  have cats: "new_Set (map p_category (getProductsData world_soap)) = [str ''Sanitizers'']"
    by (simp add: world_soap_products new_Set_def soap_def)
  show ?thesis
    using listing_unparsable_price_is_empty [OF qmin ne parseFloat_abc, of world_soap]
      listing_unparsable_price_is_empty [OF qmax ne parseFloat_abc, of world_soap]
    by (simp add: parseFloat_abc cats ne)
qed

text \<open>
  An empty query value is present and \<^verbatim>\<open>parseFloat\<close> gives NaN for it, but the guard
  \<^verbatim>\<open>if (minPrice)\<close> skips the filter: the whole catalog is listed.
\<close>

theorem listing_empty_price_counterexample:
  "q_minPrice (query_all\<lparr>q_minPrice := Some []\<rparr>) = Some [] \<and>
   parseFloat lib0 [] = NaN \<and>
   GET_products lib0 (query_all\<lparr>q_minPrice := Some []\<rparr>) world_soap =
     ((json 200 True)\<lparr>count := Some 1, categories := Some [str ''Sanitizers''],
         data := Some (Products [soap])\<rparr>, world_soap)"
  by (simp add: parseFloat_empty GET_products_def world_soap_products filter_if_def truthy_def
      sort_products_def query_all_def new_Set_def)
    (simp add: soap_def)
end
